theory Spec2Isabelle
  imports Complex_Main "HOL-Library.AList"
begin

section \<open>The run controller of MFFNet (\<open>src/main.py\<close>)\<close>

text \<open>
  The repository's only source file is the training and evaluation script. Its function
  \<open>main(args)\<close> is embedded here statement by statement. Everything the script imports
  from the rest of the package (\<open>build_dataset\<close>, \<open>train_one_epoch\<close>, \<open>evaluate\<close>,
  \<open>create_optimizer\<close>, \<open>utils.save_model\<close>, ...) is a collaborator: a call to one is
  recorded as an event, and what it returns is read from an environment record. A
  collaborator is taken to return, and to leave \<open>args\<close> as it found it.

  Python floats are modelled by \<open>real\<close>: the script only compares and stores them, and
  NaN is outside the model. Python integers are \<open>int\<close>.
\<close>

subsection \<open>The configuration\<close>

text \<open>
  The attributes of \<open>args\<close> that \<open>main.py\<close> reads or writes. Attributes that are only
  forwarded to a collaborator live in the record's extension.
\<close>

record args =
  eval :: bool
  output_dir :: string
  seed :: int
  disable_eval :: bool
  dist_eval :: bool
  log_dir :: "string option"
  enable_wandb :: bool
  batch_size :: int
  model :: string
  nb_classes :: int
  finetune :: string
  model_key :: string
  model_prefix :: string
  model_ema :: bool
  model_ema_eval :: bool
  update_freq :: int
  layer_decay :: real
  lr :: real
  min_lr :: real
  epochs :: int
  warmup_epochs :: int
  warmup_steps :: int
  weight_decay :: real
  weight_decay_end :: "real option"
  smoothing :: real
  dataset :: string
  start_epoch :: int
  save_ckpt :: bool
  save_ckpt_freq :: int
  wandb_ckpt :: bool
  tag :: string

subsection \<open>Exceptions, events and the run type\<close>

text \<open>
  The exceptions that the statements of \<open>main.py\<close> themselves can raise,
  \<open>RuntimeError\<close>, which the \<open>load_state_dict\<close> method of a torch module raises, and
  \<open>IncompatibleCheckpoint\<close>, which the specification gives to \<open>utils.load_state_dict\<close>.
\<close>

datatype pyerr =
    AssertionError
  | NameError string
  | UnboundLocalError string
  | AttributeError string
  | KeyError string
  | TypeError string
  | ZeroDivisionError
  | FileNotFoundError string
  | RuntimeError string
  | IncompatibleCheckpoint string

text \<open>The \<open>epoch\<close> argument of \<open>utils.save_model\<close>: an epoch number, \<open>"best"\<close> or \<open>"best-ema"\<close>.\<close>

datatype ckpt_tag = TagEpoch int | TagBest | TagBestEma

datatype target = Primary | EmaShadow

datatype criterion = SoftTargetCrossEntropy | LabelSmoothingCrossEntropy real | SoftCrossEntropyLoss

datatype jval = JFloat real | JInt int

text \<open>A Python \<open>dict\<close> with string keys, as its items in insertion order.\<close>

type_synonym stats = "(string \<times> real) list"

type_synonym log_entry = "(string \<times> jval) list"

text \<open>One constructor for each \<open>logger.info\<close> call of the script.\<close>

datatype logmsg =
    LoadStateDictByKey string
  | UsingEMA
  | UseCosineLR
  | CriterionIs criterion
  | EvalOnlyMode
  | AccuracyOnTestImages nat real
  | StartTraining
  | TestAccuracy real
  | AccuracyOfNetwork nat real
  | MaxAccuracy real
  | MaxEmaAccuracy real
  | TrainingTime

text \<open>An assignment to an attribute of \<open>args\<close> (lines 47, 50 and 156).\<close>

datatype attr_write = NbClasses int | DistEval bool | WeightDecayEnd real

datatype event =
    MakeDirs string
  | WriteConfig args
  | SetArg attr_write
  | CreateLogger
  | ManualSeed int
  | BuildDataset bool
  | MakeLogDir string
  | TensorboardLogger string
  | WandbLogger
  | ConstructModel int
  | TorchLoad string
  | Info logmsg
  | LoadStateDict string "string list"
  | ModelToDevice
  | ModelEma
  | LayerDecayValueAssigner "real list"
  | CreateOptimizer bool
  | CosineScheduler real real int int "int option" "int option"
  | AutoLoadModel
  | ModelLoadStateDict "string list"
  | Evaluate target
  | LogWriterSetStep int
  | WandbSetSteps
  | TrainOneEpoch int
  | SaveModel ckpt_tag
  | WandbSummary real int
  | LogWriterUpdate string real int
  | LogWriterFlush
  | WriteRecord log_entry
  | WandbLogEpochMetrics log_entry
  | WandbLogCheckpoints

text \<open>
  A run is the list of events performed so far, and either the exception that ended it
  (\<open>Inl\<close>) or the value computed (\<open>Inr\<close>).
\<close>

type_synonym 'a run = "event list \<times> (pyerr + 'a)"

definition ret :: "'a \<Rightarrow> 'a run" where
  "ret x = ([], Inr x)"

definition raise_err :: "pyerr \<Rightarrow> 'a run" where
  "raise_err e = ([], Inl e)"

definition emit :: "event \<Rightarrow> unit run" where
  "emit ev = ([ev], Inr ())"

definition bnd :: "'a run \<Rightarrow> ('a \<Rightarrow> 'b run) \<Rightarrow> 'b run" where
  "bnd m f = (case snd m of
                Inl e \<Rightarrow> (fst m, Inl e)
              | Inr x \<Rightarrow> (fst m @ fst (f x), snd (f x)))"

definition thn :: "unit run \<Rightarrow> 'b run \<Rightarrow> 'b run" where
  "thn m k = bnd m (\<lambda>_. k)"

text \<open>\<open>if c: m\<close> with no \<open>else\<close>.\<close>

definition on_cond :: "bool \<Rightarrow> unit run \<Rightarrow> unit run" where
  "on_cond c m = (if c then m else ret ())"

text \<open>\<open>d[k]\<close> on a dict.\<close>

definition getitem :: "(string \<times> 'v) list \<Rightarrow> string \<Rightarrow> 'v run" where
  "getitem d k = (case map_of d k of None \<Rightarrow> raise_err (KeyError k) | Some v \<Rightarrow> ret v)"

text \<open>
  \<open>logger.info(msg)\<close>: Python looks the attribute \<open>info\<close> up on the logger before it
  evaluates the argument, so a logger that is \<open>None\<close> raises before the message is built.
\<close>

definition info :: "unit option \<Rightarrow> logmsg run \<Rightarrow> unit run" where
  "info lg msg = (case lg of
                    None \<Rightarrow> raise_err (AttributeError ''info'')
                  | Some _ \<Rightarrow> bnd msg (\<lambda>m. emit (Info m)))"

text \<open>\<open>{**d1, **d2}\<close> and \<open>d1.update(d2)\<close>: a key already present keeps its place.\<close>

definition dict_merge :: "(string \<times> 'v) list \<Rightarrow> (string \<times> 'v) list \<Rightarrow> (string \<times> 'v) list" where
  "dict_merge d1 d2 = fold (\<lambda>kv. AList.update (fst kv) (snd kv)) d2 d1"

text \<open>The comprehension \<open>{f'{pre}{k}{suf}': v for k, v in d.items()}\<close>.\<close>

definition renamed :: "string \<Rightarrow> string \<Rightarrow> stats \<Rightarrow> log_entry" where
  "renamed pre suf d = fold (\<lambda>kv. AList.update (pre @ fst kv @ suf) (JFloat (snd kv))) d []"

subsection \<open>The collaborators and the local variables\<close>

text \<open>A dataset object, by its \<open>len\<close>; a \<open>DataLoader\<close>, by the dataset it wraps.\<close>

datatype dataset = Dataset nat

datatype loader = DataLoader "dataset option"

text \<open>A tensor, by its shape and its entries.\<close>

record tensor =
  shape :: "nat list"
  entries :: "real list"

text \<open>What \<open>torch.load\<close> can return: \<open>None\<close>, a tensor, or a dict of such objects.\<close>

datatype obj = ONone | OTensor tensor | ODict "(string \<times> obj) list"

text \<open>
  The module-level names that \<open>main\<close> reads without assigning them first:
  \<open>model\<close> (declared \<open>global\<close>, assigned only in the \<open>convnext_base\<close> branch),
  \<open>mixup_fn\<close> (its assignment is commented out) and \<open>wandb\<close> (never imported).
\<close>

datatype binding = Unbound | BoundNone | BoundObject

record globals =
  g_model :: bool
  g_mixup_fn :: binding
  g_wandb :: bool

text \<open>The module as shipped binds none of the three names.\<close>

definition module_globals :: globals where
  "module_globals = \<lparr>g_model = False, g_mixup_fn = Unbound, g_wandb = False\<rparr>"

text \<open>
  The module after a caller has bound \<open>mixup_fn = None\<close>, the assignment that line 72
  holds as a comment.
\<close>

definition patched_globals :: globals where
  "patched_globals = \<lparr>g_model = False, g_mixup_fn = BoundNone, g_wandb = False\<rparr>"

text \<open>What the collaborators return in this run.\<close>

record env =
  cuda_is_available :: bool
  build_dataset :: "bool \<Rightarrow> dataset \<times> int"
  torch_load :: "string \<Rightarrow> obj option"
  fresh_state_dict :: "(string \<times> tensor) list"
  numel_trainable :: int
  train_one_epoch :: "int \<Rightarrow> stats"
  evaluate :: "target \<Rightarrow> int option \<Rightarrow> stats"

text \<open>The local variables of \<open>main\<close> that the training stage reads.\<close>

record locals =
  logger :: "unit option"
  log_writer :: bool
  wandb_logger :: bool
  data_loader_val :: "loader option"
  dataset_val :: "dataset option"
  n_parameters :: int
  num_training_steps_per_epoch :: int

text \<open>The two accumulators of lines 186-188; \<open>max_accuracy_ema\<close> may be unbound.\<close>

record best =
  max_accuracy :: real
  max_accuracy_ema :: "real option"

subsection \<open>The epoch loop (lines 191-268)\<close>

text \<open>\<open>len(dataset_val)\<close>: a \<open>TypeError\<close> on \<open>None\<close>.\<close>

definition len_dataset :: "dataset option \<Rightarrow> nat run" where
  "len_dataset d = (case d of
                      None \<Rightarrow> raise_err (TypeError ''len'')
                    | Some (Dataset n) \<Rightarrow> ret n)"

text \<open>The guard \<open>args.output_dir and args.save_ckpt\<close> of lines 206, 222 and 248.\<close>

definition saving_enabled :: "'a args_scheme \<Rightarrow> bool" where
  "saving_enabled a = (output_dir a \<noteq> [] \<and> save_ckpt a)"

text \<open>The cadence test of line 207.\<close>

definition cadence_due :: "'a args_scheme \<Rightarrow> int \<Rightarrow> bool" where
  "cadence_due a epoch = ((epoch + 1) mod save_ckpt_freq a = 0 \<or> epoch + 1 = epochs a)"

text \<open>Lines 206-210. Python's \<open>%\<close> raises on a zero divisor.\<close>

definition save_params :: "'a args_scheme \<Rightarrow> int \<Rightarrow> unit run" where
  "save_params a epoch =
     on_cond (saving_enabled a)
       (if save_ckpt_freq a = 0 then raise_err ZeroDivisionError
        else on_cond (cadence_due a epoch) (emit (SaveModel (TagEpoch epoch))))"

text \<open>Lines 217-225: the new value of \<open>max_accuracy\<close>.\<close>

definition track_best :: "'a args_scheme \<Rightarrow> globals \<Rightarrow> locals \<Rightarrow> int \<Rightarrow> stats \<Rightarrow> real \<Rightarrow> real run" where
  "track_best a g l epoch test_stats mx =
     bnd (getitem test_stats ''acc1'') (\<lambda>acc.
       if mx < acc then
         thn (on_cond (wandb_logger l)
                (if g_wandb g then emit (WandbSummary acc epoch)
                 else raise_err (NameError ''wandb'')))
        (thn (on_cond (saving_enabled a) (emit (SaveModel TagBest)))
        (ret acc))
       else ret mx)"

text \<open>Lines 230-233.\<close>

definition log_perf :: "locals \<Rightarrow> string \<Rightarrow> stats \<Rightarrow> string \<Rightarrow> int \<Rightarrow> unit run" where
  "log_perf l name st k epoch =
     on_cond (log_writer l) (bnd (getitem st k) (\<lambda>v. emit (LogWriterUpdate name v epoch)))"

text \<open>Lines 214-238: the new \<open>max_accuracy\<close> and \<open>log_stats\<close>.\<close>

definition evaluate_primary ::
  "'a args_scheme \<Rightarrow> globals \<Rightarrow> locals \<Rightarrow> env \<Rightarrow> int \<Rightarrow> stats \<Rightarrow> real \<Rightarrow> (real \<times> log_entry) run" where
  "evaluate_primary a g l en epoch train_stats mx =
     (let test_stats = evaluate en Primary (Some epoch) in
      thn (emit (Evaluate Primary))
     (thn (info (logger l) (bnd (getitem test_stats ''acc1'') (\<lambda>v. ret (TestAccuracy v))))
     (bnd (track_best a g l epoch test_stats mx) (\<lambda>mx'.
      bnd (getitem test_stats ''acc1'') (\<lambda>acc1.
      thn (info (logger l) (bnd (len_dataset (dataset_val l)) (\<lambda>n. ret (AccuracyOfNetwork n acc1))))
     (thn (info (logger l) (ret (MaxAccuracy mx')))
     (thn (log_perf l ''test_acc1'' test_stats ''acc1'' epoch)
     (thn (log_perf l ''test_acc5'' test_stats ''acc5'' epoch)
     (thn (log_perf l ''test_loss'' test_stats ''loss'' epoch)
     (ret (mx',
           dict_merge (dict_merge (renamed ''train_'' [] train_stats) (renamed ''test_'' [] test_stats))
             [(''epoch'', JInt epoch), (''n_parameters'', JInt (n_parameters l))])))))))))))"

text \<open>Lines 241-255: the new \<open>max_accuracy_ema\<close> and \<open>log_stats\<close>.\<close>

definition evaluate_ema ::
  "'a args_scheme \<Rightarrow> locals \<Rightarrow> env \<Rightarrow> int \<Rightarrow> real option \<Rightarrow> log_entry \<Rightarrow> (real option \<times> log_entry) run" where
  "evaluate_ema a l en epoch mxe log_stats =
     (if model_ema a \<and> model_ema_eval a then
        (let test_stats_ema = evaluate en EmaShadow (Some epoch) in
         thn (emit (Evaluate EmaShadow))
        (bnd (case mxe of None \<Rightarrow> raise_err (UnboundLocalError ''max_accuracy_ema'') | Some m \<Rightarrow> ret m) (\<lambda>m.
         bnd (getitem test_stats_ema ''acc1'') (\<lambda>acc.
         bnd (if m < acc then
                thn (on_cond (saving_enabled a) (emit (SaveModel TagBestEma)))
               (thn (info (logger l) (ret (MaxEmaAccuracy acc)))
               (ret acc))
              else ret m) (\<lambda>m'.
         thn (log_perf l ''test_acc1_ema'' test_stats_ema ''acc1'' epoch)
        (ret (Some m', dict_merge log_stats (renamed ''test_'' ''_ema'' test_stats_ema))))))))
      else ret (mxe, log_stats))"

text \<open>Lines 261-268.\<close>

definition update_logger_info :: "'a args_scheme \<Rightarrow> locals \<Rightarrow> log_entry \<Rightarrow> unit run" where
  "update_logger_info a l log_stats =
     thn (on_cond (output_dir a \<noteq> [])
            (thn (on_cond (log_writer l) (emit LogWriterFlush)) (emit (WriteRecord log_stats))))
         (on_cond (wandb_logger l) (emit (WandbLogEpochMetrics log_stats)))"

text \<open>Lines 212-268: evaluation, tracking and the epoch's log record.\<close>

definition evaluate_and_log ::
  "'a args_scheme \<Rightarrow> globals \<Rightarrow> locals \<Rightarrow> env \<Rightarrow> int \<Rightarrow> stats \<Rightarrow> best \<Rightarrow> best run" where
  "evaluate_and_log a g l en epoch train_stats b =
     bnd (if data_loader_val l \<noteq> None then
            bnd (evaluate_primary a g l en epoch train_stats (max_accuracy b)) (\<lambda>r.
            bnd (evaluate_ema a l en epoch (max_accuracy_ema b) (snd r)) (\<lambda>r'.
            ret (\<lparr>max_accuracy = fst r, max_accuracy_ema = fst r'\<rparr>, snd r')))
          else
            ret (b, dict_merge (renamed ''train_'' [] train_stats)
                      [(''epoch'', JInt epoch), (''n_parameters'', JInt (n_parameters l))])) (\<lambda>r.
     thn (update_logger_info a l (snd r))
    (ret (fst r)))"

text \<open>Lines 192-195: the step counters of the two optional loggers.\<close>

definition set_steps :: "'a args_scheme \<Rightarrow> locals \<Rightarrow> int \<Rightarrow> unit run" where
  "set_steps a l epoch =
     thn (on_cond (log_writer l)
            (emit (LogWriterSetStep (epoch * num_training_steps_per_epoch l * update_freq a))))
         (on_cond (wandb_logger l) (emit WandbSetSteps))"

text \<open>
  Lines 197-204: the call of \<open>train_one_epoch\<close>; its argument list reads the global
  \<open>mixup_fn\<close>.
\<close>

definition train_pass :: "globals \<Rightarrow> int \<Rightarrow> unit run" where
  "train_pass g epoch =
     (if g_mixup_fn g = Unbound then raise_err (NameError ''mixup_fn'')
      else emit (TrainOneEpoch epoch))"

text \<open>Lines 192-268: one iteration of the loop.\<close>

definition epoch_body :: "'a args_scheme \<Rightarrow> globals \<Rightarrow> locals \<Rightarrow> env \<Rightarrow> int \<Rightarrow> best \<Rightarrow> best run" where
  "epoch_body a g l en epoch b =
     thn (set_steps a l epoch)
    (thn (train_pass g epoch)
    (let train_stats = train_one_epoch en epoch in
     thn (save_params a epoch)
    (evaluate_and_log a g l en epoch train_stats b)))"

text \<open>The \<open>for\<close> loop, over the epochs still to run.\<close>

fun training_loop :: "'a args_scheme \<Rightarrow> globals \<Rightarrow> locals \<Rightarrow> env \<Rightarrow> int list \<Rightarrow> best \<Rightarrow> best run" where
  "training_loop a g l en [] b = ret b"
| "training_loop a g l en (epoch # rest) b =
     bnd (epoch_body a g l en epoch b) (\<lambda>b'. training_loop a g l en rest b')"

text \<open>Lines 186-188.\<close>

definition initial_best :: "'a args_scheme \<Rightarrow> best" where
  "initial_best a =
     \<lparr>max_accuracy = 0,
      max_accuracy_ema = (if model_ema a \<and> model_ema_eval a then Some 0 else None)\<rparr>"

text \<open>Lines 186-276: the training stage; \<open>range(args.start_epoch, args.epochs)\<close>.\<close>

definition training_stage :: "'a args_scheme \<Rightarrow> globals \<Rightarrow> locals \<Rightarrow> env \<Rightarrow> best run" where
  "training_stage a g l en =
     thn (info (logger l) (ret StartTraining))
    (bnd (training_loop a g l en [start_epoch a..epochs a - 1] (initial_best a)) (\<lambda>b.
     thn (on_cond (wandb_logger l \<and> wandb_ckpt a \<and> saving_enabled a) (emit WandbLogCheckpoints))
    (thn (info (logger l) (ret TrainingTime))
    (ret b))))"

subsection \<open>Loading the pretrained weights (lines 93-106)\<close>

text \<open>\<open>s.split(sep)\<close> for a one-character separator.\<close>

fun split_on :: "char \<Rightarrow> string \<Rightarrow> string list" where
  "split_on c [] = [[]]"
| "split_on c (x # xs) =
     (if x = c then [] # split_on c xs
      else (case split_on c xs of w # ws \<Rightarrow> (x # w) # ws | [] \<Rightarrow> [[x]]))"

text \<open>\<open>k in ob\<close> and \<open>ob[k]\<close> with a string key need \<open>ob\<close> to be a dict.\<close>

definition as_dict :: "obj \<Rightarrow> (string \<times> obj) list run" where
  "as_dict ob = (case ob of ODict d \<Rightarrow> ret d | _ \<Rightarrow> raise_err (TypeError ''dict''))"

text \<open>\<open>ob.shape\<close>.\<close>

definition shape_of :: "obj \<Rightarrow> nat list run" where
  "shape_of ob = (case ob of OTensor t \<Rightarrow> ret (shape t) | _ \<Rightarrow> raise_err (AttributeError ''shape''))"

text \<open>
  Lines 94-99: the \<open>for\<close> loop over the preferred keys. The result is the value of
  \<open>checkpoint_model\<close> after the loop, \<open>ONone\<close> when no key was found.
\<close>

fun search_model_key :: "unit option \<Rightarrow> string list \<Rightarrow> (string \<times> obj) list \<Rightarrow> obj run" where
  "search_model_key lg [] checkpoint = ret ONone"
| "search_model_key lg (mk # mks) checkpoint =
     (case map_of checkpoint mk of
        Some v \<Rightarrow> thn (info lg (ret (LoadStateDictByKey mk))) (ret v)
      | None \<Rightarrow> search_model_key lg mks checkpoint)"

text \<open>\<open>del d[k]\<close>.\<close>

definition dict_del :: "string \<Rightarrow> (string \<times> 'v) list \<Rightarrow> (string \<times> 'v) list" where
  "dict_del k d = filter (\<lambda>kv. fst kv \<noteq> k) d"

text \<open>Lines 104-105, for one key \<open>k\<close>.\<close>

definition drop_mismatched ::
  "(string \<times> tensor) list \<Rightarrow> string \<Rightarrow> (string \<times> obj) list \<Rightarrow> (string \<times> obj) list run" where
  "drop_mismatched state_dict k checkpoint_model =
     (case map_of checkpoint_model k of
        None \<Rightarrow> ret checkpoint_model
      | Some v \<Rightarrow>
          bnd (shape_of v) (\<lambda>s.
          bnd (getitem state_dict k) (\<lambda>t.
          if s \<noteq> shape t then ret (dict_del k checkpoint_model) else ret checkpoint_model)))"

text \<open>
  Modelled from the spec: \<open>utils.load_state_dict\<close>, whose file \<open>util/utils.py\<close> is not
  among the sources. Section 4.3: it "applies the remaining weights to the model under a
  configurable name prefix, tolerating missing/extra keys by design (strict-shape
  mismatches on non-head keys are a hard failure, \<open>IncompatibleCheckpoint\<close>)". The first
  argument is the model's state, the result its state after the load.
\<close>

fun load_state_dict ::
  "(string \<times> tensor) list \<Rightarrow> (string \<times> obj) list \<Rightarrow> string \<Rightarrow> (string \<times> tensor) list run" where
  "load_state_dict [] table prefix = ret []"
| "load_state_dict (kt # rest) table prefix =
     bnd (case map_of table (prefix @ fst kt) of
            None \<Rightarrow> ret (snd kt)
          | Some (OTensor t) \<Rightarrow>
              if shape t = shape (snd kt) then ret t
              else raise_err (IncompatibleCheckpoint (fst kt))
          | Some _ \<Rightarrow> raise_err (IncompatibleCheckpoint (fst kt))) (\<lambda>t.
     bnd (load_state_dict rest table prefix) (\<lambda>rest'.
     ret ((fst kt, t) # rest')))"

text \<open>\<open>torch.load(path)\<close>.\<close>

definition load_file :: "env \<Rightarrow> string \<Rightarrow> obj run" where
  "load_file en path =
     thn (emit (TorchLoad path))
         (case torch_load en path of None \<Rightarrow> raise_err (FileNotFoundError path) | Some ob \<Rightarrow> ret ob)"

text \<open>Lines 94-105: the table of weights that is handed to \<open>utils.load_state_dict\<close>.\<close>

definition select_weights ::
  "unit option \<Rightarrow> string \<Rightarrow> obj \<Rightarrow> (string \<times> tensor) list \<Rightarrow> (string \<times> obj) list run" where
  "select_weights lg keys checkpoint_obj state_dict =
     bnd (as_dict checkpoint_obj) (\<lambda>checkpoint.
     bnd (search_model_key lg (split_on CHR ''|'' keys) checkpoint) (\<lambda>found.
     bnd (as_dict (if found = ONone then ODict checkpoint else found)) (\<lambda>cm0.
     bnd (drop_mismatched state_dict ''head.weight'' cm0) (\<lambda>cm1.
     drop_mismatched state_dict ''head.bias'' cm1))))"

text \<open>Lines 93-106: the state of the model after the pretrained weights are loaded.\<close>

definition load_finetune ::
  "unit option \<Rightarrow> env \<Rightarrow> 'a args_scheme \<Rightarrow> (string \<times> tensor) list \<Rightarrow> (string \<times> tensor) list run" where
  "load_finetune lg en a state_dict =
     bnd (load_file en (finetune a)) (\<lambda>checkpoint_obj.
     bnd (select_weights lg (model_key a) checkpoint_obj state_dict) (\<lambda>checkpoint_model.
     thn (emit (LoadStateDict (model_prefix a) (map fst checkpoint_model)))
         (load_state_dict state_dict checkpoint_model (model_prefix a))))"

text \<open>
  The specification's words for the search of lines 94-101: the preferred keys are tried
  in order, and the first one that the artifact holds gives the nested table.
\<close>

definition first_match :: "string list \<Rightarrow> (string \<times> obj) list \<Rightarrow> obj option" where
  "first_match ks ck = (case find (\<lambda>k. map_of ck k \<noteq> None) ks of None \<Rightarrow> None | Some k \<Rightarrow> map_of ck k)"

text \<open>
  The table holds a tensor under \<open>k\<close> whose shape differs from the shape of the model's
  tensor under \<open>k\<close>.
\<close>

definition head_mismatch :: "(string \<times> tensor) list \<Rightarrow> (string \<times> obj) list \<Rightarrow> string \<Rightarrow> bool" where
  "head_mismatch st table k =
     (case (map_of table k, map_of st k) of
        (Some (OTensor x), Some t) \<Rightarrow> shape x \<noteq> shape t
      | _ \<Rightarrow> False)"

subsection \<open>The function \<open>main\<close> (lines 28-276)\<close>

text \<open>A local variable that an untaken branch leaves unassigned.\<close>

datatype 'a local_var = NotAssigned | Assigned 'a

text \<open>Lines 82-110: the state of the model. The \<open>else\<close> branch builds a \<open>ValueError\<close>
  and does not raise it; line 110 then reads the global \<open>model\<close>.\<close>

definition initialize_model ::
  "globals \<Rightarrow> unit option \<Rightarrow> env \<Rightarrow> 'a args_scheme \<Rightarrow> (string \<times> tensor) list run" where
  "initialize_model g lg en a =
     bnd (if model a = ''convnext_base'' then
            thn (emit (ConstructModel (nb_classes a)))
           (bnd (load_finetune lg en a (fresh_state_dict en)) (\<lambda>st. ret (True, st)))
          else ret (g_model g, fresh_state_dict en)) (\<lambda>bound_and_state.
     if fst bound_and_state then thn (emit ModelToDevice) (ret (snd bound_and_state))
     else raise_err (NameError ''model''))"

text \<open>Lines 111-120.\<close>

definition make_model_ema :: "unit option \<Rightarrow> 'a args_scheme \<Rightarrow> unit run" where
  "make_model_ema lg a =
     on_cond (model_ema a) (thn (emit ModelEma) (info lg (ret UsingEMA)))"

text \<open>Lines 126-127; \<open>//\<close> raises on a zero divisor.\<close>

definition steps_per_epoch :: "'a args_scheme \<Rightarrow> dataset \<Rightarrow> int run" where
  "steps_per_epoch a dataset_train =
     (let total_batch_size = batch_size a * update_freq a in
      if total_batch_size = 0 then raise_err ZeroDivisionError
      else ret ((case dataset_train of Dataset n \<Rightarrow> int n) div total_batch_size))"

text \<open>Lines 129-133: \<open>assigner\<close> is assigned in the innermost branch only.\<close>

definition make_assigner :: "'a args_scheme \<Rightarrow> real list option local_var run" where
  "make_assigner a =
     (if layer_decay a < 1 \<or> layer_decay a > 1 then
        (let num_layers = 12 :: nat in
         if model a \<in> set [''convnext_small'', ''convnext_base'', ''convnext_large'', ''convnext_xlarge''] then
           (let scales = map (\<lambda>i. layer_decay a ^ (num_layers + 1 - i)) [0..<num_layers + 2] in
            thn (emit (LayerDecayValueAssigner scales)) (ret (Assigned (Some scales))))
         else ret NotAssigned)
      else ret NotAssigned)"

text \<open>Lines 142-145: the call evaluates \<open>assigner is not None\<close> before anything is built.\<close>

definition make_optimizer :: "real list option local_var \<Rightarrow> unit run" where
  "make_optimizer assigner =
     (case assigner of
        NotAssigned \<Rightarrow> raise_err (UnboundLocalError ''assigner'')
      | Assigned v \<Rightarrow> emit (CreateOptimizer (v \<noteq> None)))"

text \<open>Line 47.\<close>

definition assign_nb_classes :: "env \<Rightarrow> 'a args_scheme \<Rightarrow> 'a args_scheme" where
  "assign_nb_classes en a = a\<lparr>nb_classes := snd (build_dataset en True)\<rparr>"

text \<open>Lines 49-50.\<close>

definition assign_dist_eval :: "'a args_scheme \<Rightarrow> 'a args_scheme" where
  "assign_dist_eval a = (if disable_eval a then a\<lparr>dist_eval := False\<rparr> else a)"

text \<open>Lines 155-156.\<close>

definition assign_weight_decay_end :: "'a args_scheme \<Rightarrow> 'a args_scheme" where
  "assign_weight_decay_end a =
     (case weight_decay_end a of None \<Rightarrow> a\<lparr>weight_decay_end := Some (weight_decay a)\<rparr> | Some w \<Rightarrow> a)"

text \<open>Lines 148-158: both schedules, and the configuration after line 156.\<close>

definition make_schedules :: "unit option \<Rightarrow> 'a args_scheme \<Rightarrow> int \<Rightarrow> 'a args_scheme run" where
  "make_schedules lg a nsteps =
     thn (info lg (ret UseCosineLR))
    (thn (emit (CosineScheduler (lr a) (min_lr a) (epochs a) nsteps
                 (Some (warmup_epochs a)) (Some (warmup_steps a))))
    (thn (on_cond (weight_decay_end a = None) (emit (SetArg (WeightDecayEnd (weight_decay a)))))
    (let a' = assign_weight_decay_end a in
     thn (emit (CosineScheduler (weight_decay a')
                 (case weight_decay_end a' of Some w \<Rightarrow> w | None \<Rightarrow> weight_decay a')
                 (epochs a') nsteps None None))
    (ret a'))))"

text \<open>Lines 160-166: line 160 reads the global \<open>mixup_fn\<close>.\<close>

definition choose_criterion :: "globals \<Rightarrow> 'a args_scheme \<Rightarrow> criterion run" where
  "choose_criterion g a =
     (case g_mixup_fn g of
        Unbound \<Rightarrow> raise_err (NameError ''mixup_fn'')
      | BoundObject \<Rightarrow> ret SoftTargetCrossEntropy
      | BoundNone \<Rightarrow>
          if smoothing a > 0 then ret (LabelSmoothingCrossEntropy (smoothing a))
          else ret SoftCrossEntropyLoss)"

text \<open>\<open>ob["model"]\<close>.\<close>

definition subscript :: "obj \<Rightarrow> string \<Rightarrow> obj run" where
  "subscript ob k = bnd (as_dict ob) (\<lambda>d. getitem d k)"

text \<open>\<open>ob.items()\<close>.\<close>

definition items_of :: "obj \<Rightarrow> (string \<times> obj) list run" where
  "items_of ob = (case ob of ODict d \<Rightarrow> ret d | _ \<Rightarrow> raise_err (AttributeError ''items''))"

text \<open>
  The table holds, under the key of one entry of the model's state, a tensor of that
  entry's shape.
\<close>

definition loads_into :: "(string \<times> obj) list \<Rightarrow> string \<times> tensor \<Rightarrow> bool" where
  "loads_into ckpt kt =
     (case map_of ckpt (fst kt) of
        Some (OTensor t) \<Rightarrow> shape t = shape (snd kt)
      | _ \<Rightarrow> False)"

text \<open>
  Line 179, \<open>model.load_state_dict(ckpt)\<close>: the method of the torch module, with \<open>strict\<close>
  left at its default \<open>True\<close>. It raises \<open>RuntimeError\<close> when a key of the model is missing
  from the table, when the table holds under such a key anything but a tensor of the
  model's shape, and when the table has a key that the model does not have. The method's
  legacy conversion of a one-element vector into a scalar entry is left out.
\<close>

definition strict_load :: "(string \<times> tensor) list \<Rightarrow> (string \<times> obj) list \<Rightarrow> unit run" where
  "strict_load model_dict ckpt =
     (if list_all (loads_into ckpt) model_dict \<and>
         list_all (\<lambda>kv. fst kv \<in> set (map fst model_dict)) ckpt
      then ret ()
      else raise_err (RuntimeError ''load_state_dict''))"

text \<open>Lines 175-183: the evaluation-only branch.\<close>

definition eval_only ::
  "unit option \<Rightarrow> env \<Rightarrow> 'a args_scheme \<Rightarrow> dataset option \<Rightarrow> (string \<times> tensor) list \<Rightarrow> unit run" where
  "eval_only lg en a ds_val model_dict =
     thn (info lg (ret EvalOnlyMode))
    (bnd (load_file en (''checkpoint/'' @ dataset a @ ''.pth'')) (\<lambda>ob.
     bnd (subscript ob ''model'') (\<lambda>ckpt_obj.
     bnd (items_of ckpt_obj) (\<lambda>items.
     let ckpt = filter (\<lambda>kv. fst kv \<in> set (map fst model_dict)) items in
     thn (emit (ModelLoadStateDict (map fst ckpt)))
    (thn (strict_load model_dict ckpt)
    (let test_stats = evaluate en Primary None in
     thn (emit (Evaluate Primary))
    (info lg (bnd (len_dataset ds_val) (\<lambda>n.
              bnd (getitem test_stats ''acc1'') (\<lambda>acc.
              ret (AccuracyOnTestImages n acc)))))))))))"

text \<open>
  Lines 29-172: everything \<open>main\<close> does before it looks at \<open>args.eval\<close> on line 174. The
  result is the configuration after the assignments of lines 47, 50 and 156, the local
  variables that the rest of \<open>main\<close> reads, and the state of the model. Each assignment
  to an attribute of \<open>args\<close> is also recorded as an event.
\<close>

definition prepare ::
  "globals \<Rightarrow> env \<Rightarrow> 'a args_scheme \<Rightarrow> ('a args_scheme \<times> locals \<times> (string \<times> tensor) list) run" where
  "prepare g en a0 =
     (if \<not> cuda_is_available en then raise_err AssertionError
      else
       (let lg = (if eval a0 = False then Some () else None) in
        thn (on_cond (eval a0 = False) (emit CreateLogger))
       (thn (emit (ManualSeed (seed a0)))
       (thn (emit (BuildDataset True))
       (thn (emit (SetArg (NbClasses (snd (build_dataset en True)))))
       (let dataset_train = fst (build_dataset en True);
            a1 = assign_nb_classes en a0;
            a2 = assign_dist_eval a1;
            ds_val = (if disable_eval a1 then None else Some (fst (build_dataset en False))) in
        thn (if disable_eval a1 then emit (SetArg (DistEval False)) else emit (BuildDataset False))
       (thn (case log_dir a2 of
               None \<Rightarrow> ret ()
             | Some d \<Rightarrow> thn (emit (MakeLogDir d)) (emit (TensorboardLogger d)))
       (thn (on_cond (enable_wandb a2) (emit WandbLogger))
       (let dl_val = Some (DataLoader ds_val) in
        bnd (initialize_model g lg en a2) (\<lambda>model_state.
        thn (make_model_ema lg a2)
       (bnd (steps_per_epoch a2 dataset_train) (\<lambda>nsteps.
        bnd (make_assigner a2) (\<lambda>assigner.
        thn (make_optimizer assigner)
       (bnd (make_schedules lg a2 nsteps) (\<lambda>a3.
        bnd (choose_criterion g a3) (\<lambda>criterion.
        thn (info lg (ret (CriterionIs criterion)))
       (thn (emit AutoLoadModel)
       (ret (a3,
             \<lparr>logger = lg, log_writer = (log_dir a3 \<noteq> None), wandb_logger = enable_wandb a3,
              data_loader_val = dl_val, dataset_val = ds_val,
              n_parameters = numel_trainable en,
              num_training_steps_per_epoch = nsteps\<rparr>,
             model_state)))))))))))))))))))"

text \<open>
  The function \<open>main\<close>: lines 29-172, then the evaluation-only branch or the training
  stage. The result is the configuration as the caller finds it after the call.
\<close>

definition main :: "globals \<Rightarrow> env \<Rightarrow> 'a args_scheme \<Rightarrow> 'a args_scheme run" where
  "main g en a0 =
     bnd (prepare g en a0) (\<lambda>p.
     let a3 = fst p; l = fst (snd p); model_state = snd (snd p) in
     if eval a3 then
       thn (eval_only (logger l) en a3 (dataset_val l) model_state) (ret a3)
     else
       bnd (training_stage a3 g l en) (\<lambda>b. ret a3))"

subsection \<open>The script (lines 279-296)\<close>




subsection \<open>The schedule generator\<close>

text \<open>
  Modelled from the spec: the length of the warmup phase of \<open>utils.cosine_scheduler\<close>,
  whose file \<open>util/utils.py\<close> is not among the sources. Section 4.1: the ramp runs "over
  \<open>max(warmup_epochs \<times> steps_per_epoch, warmup_steps)\<close> steps".
\<close>

definition warmup_length :: "nat \<Rightarrow> nat \<Rightarrow> nat \<Rightarrow> nat" where
  "warmup_length steps w_epochs w_steps = max (w_epochs * steps) w_steps"

text \<open>
  Modelled from the spec: the warmup phase of \<open>utils.cosine_scheduler\<close>. Section 4.1: a
  "linear ramp from \<open>0\<close> to \<open>base_value\<close>" over the \<open>w\<close> warmup steps: 0 at the first of
  them, \<open>base_value\<close> at the last, over the reals. A ramp of one step is its first value
  (section 8: the "first warmup value is \<open>0\<close>").
\<close>

definition warmup_value :: "real \<Rightarrow> nat \<Rightarrow> nat \<Rightarrow> real" where
  "warmup_value base_value w i = (if w \<le> 1 then 0 else base_value * real i / real (w - 1))"

text \<open>
  Modelled from the spec: the decay phase of \<open>utils.cosine_scheduler\<close>. Section 4.1: a
  "half-cosine decay from \<open>base_value\<close> down to \<open>end_value\<close> over the remaining steps":
  \<open>base_value\<close> at the first of the \<open>n\<close> remaining steps, \<open>end_value\<close> at the last, over
  the reals. A decay of one step is its last value (section 8: the "value at the final
  step equals \<open>end_value\<close>").
\<close>

definition decay_value :: "real \<Rightarrow> real \<Rightarrow> nat \<Rightarrow> nat \<Rightarrow> real" where
  "decay_value base_value end_value n j =
     (if n \<le> 1 then end_value
      else end_value + (base_value - end_value) / 2 * (1 + cos (pi * real j / real (n - 1))))"

text \<open>
  Modelled from the spec: \<open>utils.cosine_scheduler\<close>, called on lines 150 and 157. Section
  4.1: the ramp "followed by" the decay, in all \<open>total_epochs \<times> steps_per_epoch\<close> values;
  "if warmup length \<open>\<ge>\<close> total steps, the sequence is warmup-only (truncated)".
\<close>

definition cosine_scheduler :: "real \<Rightarrow> real \<Rightarrow> nat \<Rightarrow> nat \<Rightarrow> nat \<Rightarrow> nat \<Rightarrow> real list" where
  "cosine_scheduler base_value end_value total_epochs steps w_epochs w_steps =
     (let total = total_epochs * steps;
          w = warmup_length steps w_epochs w_steps;
          n = total - w
      in take total (map (warmup_value base_value w) [0..<w] @
                     map (decay_value base_value end_value n) [0..<n]))"

subsection \<open>Observations and sample inputs\<close>

text \<open>
  The top-1 accuracy that \<open>evaluate\<close> reports for the primary model after an epoch. A run
  that gets past line 216 has found the key \<open>acc1\<close>, so the default is never read there.
\<close>

definition primary_acc :: "env \<Rightarrow> int \<Rightarrow> real" where
  "primary_acc en epoch =
     (case map_of (evaluate en Primary (Some epoch)) ''acc1'' of Some v \<Rightarrow> v | None \<Rightarrow> 0)"

definition is_best :: "event \<Rightarrow> bool" where
  "is_best ev = (ev = SaveModel TagBest)"

text \<open>The events of lines 192-195.\<close>

definition is_set_step :: "event \<Rightarrow> bool" where
  "is_set_step ev = (case ev of LogWriterSetStep n \<Rightarrow> True | WandbSetSteps \<Rightarrow> True | _ \<Rightarrow> False)"

text \<open>Neither a training pass nor a save tagged by an epoch number.\<close>

definition after_save :: "event \<Rightarrow> bool" where
  "after_save ev = (case ev of TrainOneEpoch k \<Rightarrow> False | SaveModel (TagEpoch k) \<Rightarrow> False | _ \<Rightarrow> True)"

text \<open>Every event of a run satisfies \<open>P\<close>.\<close>

definition emits_only :: "(event \<Rightarrow> bool) \<Rightarrow> 'a run \<Rightarrow> bool" where
  "emits_only P m = list_all P (fst m)"

text \<open>
  A sample configuration: three epochs, checkpoints every second epoch, no EMA, no
  tensorboard and no wandb logger; and collaborators whose evaluation reports the top-1
  accuracies 70, 65 and 72 after epochs 0, 1 and 2, with three files on disk.
\<close>

definition base_args :: args where
  "base_args =
     \<lparr>eval = False, output_dir = ''out'', seed = 0, disable_eval = False, dist_eval = True,
      log_dir = None, enable_wandb = False, batch_size = 8, model = ''convnext_base'',
      nb_classes = 1000, finetune = ''pretrained.pth'', model_key = ''model|module'',
      model_prefix = [], model_ema = False, model_ema_eval = False, update_freq = 1,
      layer_decay = 3 / 4, lr = 1 / 1000, min_lr = 1 / 1000000, epochs = 3, warmup_epochs = 0,
      warmup_steps = - 1, weight_decay = 1 / 20, weight_decay_end = None, smoothing = 1 / 10,
      dataset = ''cub'', start_epoch = 0, save_ckpt = True, save_ckpt_freq = 2,
      wandb_ckpt = False, tag = ''run''\<rparr>"

definition base_locals :: locals where
  "base_locals =
     \<lparr>logger = Some (), log_writer = False, wandb_logger = False,
      data_loader_val = Some (DataLoader (Some (Dataset 100))), dataset_val = Some (Dataset 100),
      n_parameters = 1000, num_training_steps_per_epoch = 10\<rparr>"

text \<open>
  A model state with a stem and a two-class head, and a table of weights with the same
  stem, a three-class head and one key the model does not have.
\<close>

definition sample_state :: "(string \<times> tensor) list" where
  "sample_state =
     [(''stem.weight'', \<lparr>shape = [2], entries = [0, 0]\<rparr>),
      (''head.weight'', \<lparr>shape = [2, 2], entries = [1, 0, 0, 1]\<rparr>),
      (''head.bias'', \<lparr>shape = [2], entries = [0, 0]\<rparr>)]"

definition sample_table :: "(string \<times> obj) list" where
  "sample_table =
     [(''stem.weight'', OTensor \<lparr>shape = [2], entries = [5, 7]\<rparr>),
      (''head.weight'', OTensor \<lparr>shape = [3, 2], entries = [1, 2, 3, 4, 5, 6]\<rparr>),
      (''head.bias'', OTensor \<lparr>shape = [3], entries = [1, 2, 3]\<rparr>),
      (''fc_norm.weight'', OTensor \<lparr>shape = [2], entries = [9, 9]\<rparr>)]"

text \<open>An artifact that nests the table under \<open>"model"\<close>, and the model's state once it is loaded.\<close>

definition sample_artifact :: "(string \<times> obj) list" where
  "sample_artifact = [(''epoch'', ONone), (''model'', ODict sample_table)]"

definition loaded_state :: "(string \<times> tensor) list" where
  "loaded_state =
     [(''stem.weight'', \<lparr>shape = [2], entries = [5, 7]\<rparr>),
      (''head.weight'', \<lparr>shape = [2, 2], entries = [1, 0, 0, 1]\<rparr>),
      (''head.bias'', \<lparr>shape = [2], entries = [0, 0]\<rparr>)]"

definition base_env :: env where
  "base_env =
     \<lparr>cuda_is_available = True,
      build_dataset = (\<lambda>is_train. if is_train then (Dataset 80, 200) else (Dataset 100, 200)),
      torch_load = (\<lambda>p.
        if p = ''pretrained.pth'' then Some (ODict sample_artifact)
        else if p = ''backbone.pth'' then Some (ODict sample_table)
        else if p = ''checkpoint/cub.pth'' then Some (ODict [(''model'', ODict sample_table)])
        else None),
      fresh_state_dict = sample_state,
      numel_trainable = 1000,
      train_one_epoch = (\<lambda>e. [(''loss'', 1)]),
      evaluate = (\<lambda>t e. [(''loss'', 1),
                            (''acc1'', if e = Some 0 then 70 else if e = Some 1 then 65 else 72),
                            (''acc5'', 90)])\<rparr>"

text \<open>The sample configuration with EMA evaluation on, and collaborators that report accuracy 0.\<close>

definition ema_args :: args where
  "ema_args = base_args\<lparr>model_ema := True, model_ema_eval := True\<rparr>"

definition zero_env :: env where
  "zero_env = base_env\<lparr>evaluate := (\<lambda>t e. [(''loss'', 1), (''acc1'', 0), (''acc5'', 0)])\<rparr>"




text \<open>The events of lines 29-172 that need no logger.\<close>

definition is_unlogged_event :: "event \<Rightarrow> bool" where
  "is_unlogged_event ev =
     (case ev of
        ManualSeed s \<Rightarrow> True | BuildDataset t \<Rightarrow> True | SetArg w \<Rightarrow> True | MakeLogDir d \<Rightarrow> True
      | TensorboardLogger d \<Rightarrow> True | WandbLogger \<Rightarrow> True | ConstructModel n \<Rightarrow> True
      | TorchLoad p \<Rightarrow> True | LoadStateDict p ks \<Rightarrow> True | ModelToDevice \<Rightarrow> True
      | ModelEma \<Rightarrow> True | LayerDecayValueAssigner xs \<Rightarrow> True | CreateOptimizer x \<Rightarrow> True
      | _ \<Rightarrow> False)"

text \<open>The sample configuration in evaluation-only mode, with a flat table of pretrained weights.\<close>

definition eval_args :: args where
  "eval_args = base_args\<lparr>eval := True, finetune := ''backbone.pth''\<rparr>"

section \<open>Properties\<close>

subsection \<open>Laws of the run type\<close>

lemma fst_bnd: "fst (bnd m f) = (case snd m of Inl e \<Rightarrow> fst m | Inr x \<Rightarrow> fst m @ fst (f x))"
  by (simp add: bnd_def split: sum.splits)

lemma snd_bnd_Inr: "snd (bnd m f) = Inr y \<longleftrightarrow> (\<exists>x. snd m = Inr x \<and> snd (f x) = Inr y)"
  by (simp add: bnd_def split: sum.splits)

lemma snd_thn_Inr: "snd (thn m k) = Inr y \<longleftrightarrow> (snd m = Inr () \<and> snd k = Inr y)"
  by (simp add: thn_def snd_bnd_Inr)

lemma fst_bnd_ok: "snd m = Inr x \<Longrightarrow> fst (bnd m f) = fst m @ fst (f x)"
  by (simp add: bnd_def)

lemma fst_thn_ok: "snd m = Inr () \<Longrightarrow> fst (thn m k) = fst m @ fst k"
  by (simp add: thn_def bnd_def)

lemma filter_bnd:
  "filter Q (fst (bnd m f)) =
     filter Q (fst m) @ (case snd m of Inl e \<Rightarrow> [] | Inr x \<Rightarrow> filter Q (fst (f x)))"
  by (simp add: bnd_def split: sum.splits)

lemma filter_thn:
  "filter Q (fst (thn m k)) =
     filter Q (fst m) @ (case snd m of Inl e \<Rightarrow> [] | Inr x \<Rightarrow> filter Q (fst k))"
  by (simp add: thn_def filter_bnd)

lemma bnd_ret: "bnd (ret x) f = f x"
  by (simp add: bnd_def ret_def)

lemma bnd_raise: "bnd (raise_err e) f = raise_err e"
  by (simp add: bnd_def raise_err_def)

lemma thn_ret: "thn (ret x) k = k"
  by (simp add: thn_def bnd_ret)

lemma thn_raise: "thn (raise_err e) k = raise_err e"
  by (simp add: thn_def bnd_raise)

lemma thn_emit: "thn (emit ev) k = (ev # fst k, snd k)"
  by (simp add: thn_def bnd_def emit_def)

lemma run_parts:
  "fst (ret x) = []" "snd (ret x) = Inr x" "fst (raise_err e) = []" "snd (raise_err e) = Inl e"
  "fst (emit ev) = [ev]" "snd (emit ev) = Inr ()"
  by (simp_all add: ret_def raise_err_def emit_def)

lemma on_cond_simps: "on_cond True m = m" "on_cond False m = ret ()"
  by (simp_all add: on_cond_def)

lemmas run_simps = bnd_ret bnd_raise thn_ret thn_raise thn_emit run_parts on_cond_simps

lemma getitem_Some: "map_of d k = Some v \<Longrightarrow> getitem d k = ret v"
  by (simp add: getitem_def)

lemma getitem_None: "map_of d k = None \<Longrightarrow> getitem d k = raise_err (KeyError k)"
  by (simp add: getitem_def)

lemma fst_getitem: "fst (getitem d k) = []"
  by (simp add: getitem_def ret_def raise_err_def split: option.splits)

lemma fst_len_dataset: "fst (len_dataset d) = []"
  by (simp add: len_dataset_def run_parts split: option.splits dataset.splits)

subsection \<open>Runs whose events all satisfy a predicate\<close>

lemma emits_only_ret: "emits_only P (ret x)"
  by (simp add: emits_only_def ret_def)

lemma emits_only_raise: "emits_only P (raise_err e)"
  by (simp add: emits_only_def raise_err_def)

lemma emits_only_emit: "P ev \<Longrightarrow> emits_only P (emit ev)"
  by (simp add: emits_only_def emit_def)

lemma emits_only_bnd:
  "emits_only P m \<Longrightarrow> (\<And>x. snd m = Inr x \<Longrightarrow> emits_only P (f x)) \<Longrightarrow> emits_only P (bnd m f)"
  by (simp add: emits_only_def bnd_def split: sum.splits)

lemma emits_only_thn: "emits_only P m \<Longrightarrow> emits_only P k \<Longrightarrow> emits_only P (thn m k)"
  by (simp add: thn_def emits_only_bnd)

lemma emits_only_on_cond: "(c \<Longrightarrow> emits_only P m) \<Longrightarrow> emits_only P (on_cond c m)"
  by (simp add: on_cond_def emits_only_ret)

lemma emits_only_getitem: "emits_only P (getitem d k)"
  by (simp add: getitem_def emits_only_ret emits_only_raise split: option.splits)

lemma emits_only_info: "(\<And>m. P (Info m)) \<Longrightarrow> emits_only P msg \<Longrightarrow> emits_only P (info lg msg)"
  by (auto simp: info_def intro!: emits_only_bnd emits_only_emit emits_only_raise split: option.splits)

lemma emits_only_if:
  "(c \<Longrightarrow> emits_only P m) \<Longrightarrow> (\<not> c \<Longrightarrow> emits_only P k) \<Longrightarrow> emits_only P (if c then m else k)"
  by simp

lemma emits_only_len: "emits_only P (len_dataset d)"
  by (auto simp: len_dataset_def intro: emits_only_ret emits_only_raise split: option.splits dataset.splits)

lemmas eo = emits_only_ret emits_only_raise emits_only_emit emits_only_bnd emits_only_thn
  emits_only_on_cond emits_only_getitem emits_only_info emits_only_if emits_only_len

lemma filter_emits_only:
  "emits_only P m \<Longrightarrow> (\<And>ev. P ev \<Longrightarrow> \<not> Q ev) \<Longrightarrow> filter Q (fst m) = []"
  by (auto simp: emits_only_def list_all_iff filter_empty_conv)

subsection \<open>The best-model tracker\<close>

lemma track_best_result:
  "snd (track_best a g l e ts mx) = Inr m \<Longrightarrow> \<exists>acc. map_of ts ''acc1'' = Some acc \<and> m = max mx acc"
  by (cases "map_of ts ''acc1''")
     (auto simp: track_best_def getitem_Some getitem_None run_simps on_cond_def split: if_splits)

lemma track_best_events:
  "snd (track_best a g l e ts mx) = Inr m \<Longrightarrow> map_of ts ''acc1'' = Some acc \<Longrightarrow>
   filter is_best (fst (track_best a g l e ts mx)) =
     (if saving_enabled a \<and> mx < acc then [SaveModel TagBest] else [])"
  by (auto simp: track_best_def getitem_Some run_simps on_cond_def is_best_def split: if_splits)

lemma no_best_info: "fst msg = [] \<Longrightarrow> filter is_best (fst (info lg msg)) = []"
  by (cases lg) (auto simp: info_def filter_bnd run_parts is_best_def split: sum.splits)

lemma eo_log_perf: "(\<And>n v e. P (LogWriterUpdate n v e)) \<Longrightarrow> emits_only P (log_perf l name st k epoch)"
  unfolding log_perf_def by (intro eo) simp_all

lemma no_best_log_perf: "filter is_best (fst (log_perf l name st k epoch)) = []"
  by (rule filter_emits_only[OF eo_log_perf[where P="\<lambda>ev. \<not> is_best ev"]]) (simp_all add: is_best_def)

lemma evaluate_primary_result:
  assumes "snd (evaluate_primary a g l en e ts mx) = Inr r"
  shows "\<exists>acc. map_of (evaluate en Primary (Some e)) ''acc1'' = Some acc \<and> fst r = max mx acc \<and>
     filter is_best (fst (evaluate_primary a g l en e ts mx)) =
       (if saving_enabled a \<and> mx < acc then [SaveModel TagBest] else [])"
proof -
  let ?ts = "evaluate en Primary (Some e)"
  from assms obtain m where tb: "snd (track_best a g l e ?ts mx) = Inr m"
    and r: "fst r = m"
    by (auto simp: evaluate_primary_def Let_def snd_thn_Inr snd_bnd_Inr run_parts)
  from track_best_result[OF tb] obtain acc where acc: "map_of ?ts ''acc1'' = Some acc"
    and m: "m = max mx acc" by blast
  have "filter is_best (fst (evaluate_primary a g l en e ts mx)) =
        filter is_best (fst (track_best a g l e ?ts mx))"
    using assms tb acc
    by (simp add: evaluate_primary_def Let_def snd_thn_Inr snd_bnd_Inr getitem_Some run_simps
         fst_thn_ok fst_bnd_ok no_best_info no_best_log_perf fst_len_dataset fst_bnd is_best_def
         split: sum.splits)
  with track_best_events[OF tb acc] r m acc show ?thesis
    by auto
qed

lemma no_best_evaluate_ema: "filter is_best (fst (evaluate_ema a l en e mxe ls)) = []"
proof -
  have "emits_only (\<lambda>ev. \<not> is_best ev) (evaluate_ema a l en e mxe ls)"
    unfolding evaluate_ema_def log_perf_def Let_def
    by (auto intro!: eo simp: is_best_def split: option.splits)
  then show ?thesis by (rule filter_emits_only) simp
qed

lemma no_best_update: "filter is_best (fst (update_logger_info a l ls)) = []"
proof -
  have "emits_only (\<lambda>ev. \<not> is_best ev) (update_logger_info a l ls)"
    unfolding update_logger_info_def
    by (auto intro!: eo simp: is_best_def)
  then show ?thesis by (rule filter_emits_only) simp
qed

lemma no_best_save_params: "filter is_best (fst (save_params a e)) = []"
proof -
  have "emits_only (\<lambda>ev. \<not> is_best ev) (save_params a e)"
    unfolding save_params_def
    by (auto intro!: eo simp: is_best_def)
  then show ?thesis by (rule filter_emits_only) simp
qed

lemma no_best_on_cond_emit:
  "ev \<noteq> SaveModel TagBest \<Longrightarrow> filter is_best (fst (on_cond c (emit ev))) = []"
  by (simp add: on_cond_def run_parts is_best_def)

lemma set_steps_ok: "snd (set_steps a l e) = Inr ()"
  by (simp add: set_steps_def on_cond_def thn_def bnd_def ret_def emit_def)

lemma set_steps_events: "list_all is_set_step (fst (set_steps a l e))"
  by (simp add: set_steps_def on_cond_def thn_def bnd_def ret_def emit_def is_set_step_def)

lemma no_best_set_steps: "filter is_best (fst (set_steps a l e)) = []"
  using set_steps_events[of a l e]
  by (auto simp: filter_empty_conv list_all_iff is_set_step_def is_best_def)

lemma no_best_train_pass: "filter is_best (fst (train_pass g e)) = []"
  by (simp add: train_pass_def run_parts is_best_def)

lemma train_pass_ok: "snd (train_pass g e) = Inr () \<longleftrightarrow> g_mixup_fn g \<noteq> Unbound"
  by (simp add: train_pass_def run_parts)

lemma train_pass_events: "fst (train_pass g e) = (if g_mixup_fn g = Unbound then [] else [TrainOneEpoch e])"
  by (simp add: train_pass_def run_parts)

lemma epoch_body_result:
  assumes "snd (epoch_body a g l en e b) = Inr b'" and "data_loader_val l \<noteq> None"
  shows "map_of (evaluate en Primary (Some e)) ''acc1'' = Some (primary_acc en e) \<and>
     max_accuracy b' = max (max_accuracy b) (primary_acc en e) \<and>
     filter is_best (fst (epoch_body a g l en e b)) =
       (if saving_enabled a \<and> max_accuracy b < primary_acc en e then [SaveModel TagBest] else [])"
proof -
  let ?ep = "evaluate_primary a g l en e (train_one_epoch en e) (max_accuracy b)"
  from assms obtain r where ep: "snd ?ep = Inr r" and b': "max_accuracy b' = fst r"
    by (auto simp: epoch_body_def evaluate_and_log_def Let_def snd_thn_Inr snd_bnd_Inr run_parts)
  from evaluate_primary_result[OF ep] obtain acc where
    acc: "map_of (evaluate en Primary (Some e)) ''acc1'' = Some acc" and
    r: "fst r = max (max_accuracy b) acc" and
    f: "filter is_best (fst ?ep) =
          (if saving_enabled a \<and> max_accuracy b < acc then [SaveModel TagBest] else [])"
    by blast
  have pa: "primary_acc en e = acc" using acc by (simp add: primary_acc_def)
  have "filter is_best (fst (epoch_body a g l en e b)) = filter is_best (fst ?ep)"
    using assms ep
    by (auto simp: epoch_body_def evaluate_and_log_def Let_def run_parts
         snd_thn_Inr snd_bnd_Inr filter_thn filter_bnd set_steps_ok no_best_set_steps
         no_best_train_pass no_best_evaluate_ema no_best_update no_best_save_params no_best_on_cond_emit
         is_best_def split: sum.splits)
  with f r b' acc pa show ?thesis by simp
qed

lemma new_maxima_Cons:
  "[i \<leftarrow> [0..<Suc n]. fold max (take i (x # xs)) (m::real) < (x # xs) ! i] =
   (if m < x then [0] else []) @ map Suc [i \<leftarrow> [0..<n]. fold max (take i xs) (max m x) < xs ! i]"
proof -
  have "[0..<Suc n] = 0 # map Suc [0..<n]"
    by (simp add: upt_conv_Cons map_Suc_upt del: upt_Suc)
  then show ?thesis
    by (simp add: filter_map comp_def max.commute del: upt_Suc)
qed

lemma training_loop_fold:
  assumes "snd (training_loop a g l en es b) = Inr b'" and "data_loader_val l \<noteq> None"
  shows "max_accuracy b' = fold max (map (primary_acc en) es) (max_accuracy b) \<and>
     length (filter is_best (fst (training_loop a g l en es b))) =
       (if saving_enabled a
        then length [i \<leftarrow> [0..<length es].
               fold max (take i (map (primary_acc en) es)) (max_accuracy b)
                 < map (primary_acc en) es ! i]
        else 0)"
  using assms
proof (induction es arbitrary: b)
  case Nil
  then show ?case by (simp add: run_parts)
next
  case (Cons e es)
  from Cons.prems obtain b1 where b1: "snd (epoch_body a g l en e b) = Inr b1"
    and rest: "snd (training_loop a g l en es b1) = Inr b'"
    by (auto simp: snd_bnd_Inr)
  note eb = epoch_body_result[OF b1 Cons.prems(2)]
  note ih = Cons.IH[OF rest Cons.prems(2)]
  have tr: "fst (training_loop a g l en (e # es) b) =
            fst (epoch_body a g l en e b) @ fst (training_loop a g l en es b1)"
    using b1 by (simp add: fst_bnd_ok)
  have mx: "max_accuracy b' = fold max (map (primary_acc en) (e # es)) (max_accuracy b)"
    using ih eb by (simp add: max.commute)
  have cnt: "length (filter is_best (fst (training_loop a g l en (e # es) b))) =
       (if saving_enabled a
        then length [i \<leftarrow> [0..<length (e # es)].
               fold max (take i (map (primary_acc en) (e # es))) (max_accuracy b)
                 < map (primary_acc en) (e # es) ! i]
        else 0)"
  proof -
    have "length (e # es) = Suc (length es)" by simp
    then show ?thesis
      using ih eb unfolding tr
      by (simp only: new_maxima_Cons list.map) (simp del: upt_Suc)
  qed
  from mx cnt show ?case by blast
qed

lemma count_best: "count_list evs (SaveModel TagBest) = length (filter is_best evs)"
  by (induction evs) (auto simp: is_best_def)

lemmas loop_eval = epoch_body_def evaluate_and_log_def set_steps_def train_pass_def evaluate_primary_def evaluate_ema_def track_best_def
  save_params_def update_logger_info_def log_perf_def len_dataset_def saving_enabled_def
  cadence_due_def info_def getitem_def on_cond_def bnd_def thn_def ret_def raise_err_def
  emit_def initial_best_def Let_def

lemmas sample_defs = base_args_def base_locals_def base_env_def module_globals_def patched_globals_def

text \<open>
  C1 (as amended). Let the loop run over any list of epochs, each with an evaluation, and
  return. The tracked best accuracy is then the maximum of 0.0 and all observed
  accuracies. When saving is enabled (\<open>args.output_dir\<close> non-empty and \<open>args.save_ckpt\<close>),
  the number of saves tagged \<open>"best"\<close> is the number of observations that strictly exceed
  0.0 and every earlier observation; when saving is disabled there is none.
\<close>

theorem best_model_tracker:
  assumes "snd (training_loop a g l en es (initial_best a)) = Inr b"
    and "data_loader_val l \<noteq> None"
  shows "max_accuracy b = Max (set (0 # map (primary_acc en) es)) \<and>
     count_list (fst (training_loop a g l en es (initial_best a))) (SaveModel TagBest) =
       (if saving_enabled a
        then length [i \<leftarrow> [0..<length es].
               Max (set (0 # take i (map (primary_acc en) es))) < map (primary_acc en) es ! i]
        else 0)"
  using training_loop_fold[OF assms]
  by (simp only: count_best Max.set_eq_fold) (simp add: initial_best_def)

lemma sample_accs: "map (primary_acc base_env) [0, 1, 2] = [70, 65, 72]"
  by (simp add: primary_acc_def base_env_def)

text \<open>
  The scenario of the specification: the accuracies 70, 65 and 72 give a save after the
  first and after the third observation, two in all, and a final best of 72.
\<close>

theorem best_model_tracker_witness:
  "snd (training_loop base_args patched_globals base_locals base_env [0, 1, 2] (initial_best base_args)) =
     Inr \<lparr>max_accuracy = 72, max_accuracy_ema = None\<rparr> \<and>
   data_loader_val base_locals \<noteq> None \<and>
   map (primary_acc base_env) [0, 1, 2] = [70, 65, 72] \<and>
   count_list (fst (training_loop base_args patched_globals base_locals base_env [0] (initial_best base_args)))
     (SaveModel TagBest) = 1 \<and>
   count_list (fst (training_loop base_args patched_globals base_locals base_env [0, 1] (initial_best base_args)))
     (SaveModel TagBest) = 1 \<and>
   count_list (fst (training_loop base_args patched_globals base_locals base_env [0, 1, 2] (initial_best base_args)))
     (SaveModel TagBest) = 2"
proof -
  have l: "data_loader_val base_locals \<noteq> None" by (simp add: base_locals_def)
  have s: "saving_enabled base_args" by (simp add: saving_enabled_def base_args_def)
  have r1: "snd (training_loop base_args patched_globals base_locals base_env [0] (initial_best base_args)) =
     Inr \<lparr>max_accuracy = 70, max_accuracy_ema = None\<rparr>"
    by (simp add: loop_eval sample_defs)
  have r2: "snd (training_loop base_args patched_globals base_locals base_env [0, 1] (initial_best base_args)) =
     Inr \<lparr>max_accuracy = 70, max_accuracy_ema = None\<rparr>"
    by (simp add: loop_eval sample_defs)
  have r3: "snd (training_loop base_args patched_globals base_locals base_env [0, 1, 2] (initial_best base_args)) =
     Inr \<lparr>max_accuracy = 72, max_accuracy_ema = None\<rparr>"
    by (simp add: loop_eval sample_defs)
  have a1: "map (primary_acc base_env) [0] = [70]" by (simp add: primary_acc_def base_env_def)
  have a2: "map (primary_acc base_env) [0, 1] = [70, 65]" by (simp add: primary_acc_def base_env_def)
  note a3 = sample_accs
  from best_model_tracker[OF r1 l] best_model_tracker[OF r2 l] best_model_tracker[OF r3 l]
  show ?thesis
    unfolding a1 a2 a3 using r3 l s by (simp add: upt_rec)
qed

text \<open>
  C1 as stated fails when \<open>args.save_ckpt\<close> is false: the same three observations are
  tracked, and no checkpoint tagged \<open>"best"\<close> is saved.
\<close>

theorem best_model_tracker_counterexample:
  "map (primary_acc base_env) [0, 1, 2] = [70, 65, 72] \<and>
   snd (training_loop (base_args\<lparr>save_ckpt := False\<rparr>) patched_globals base_locals base_env [0, 1, 2]
          (initial_best (base_args\<lparr>save_ckpt := False\<rparr>))) =
     Inr \<lparr>max_accuracy = 72, max_accuracy_ema = None\<rparr> \<and>
   count_list (fst (training_loop (base_args\<lparr>save_ckpt := False\<rparr>) patched_globals base_locals base_env
                     [0, 1, 2] (initial_best (base_args\<lparr>save_ckpt := False\<rparr>))))
     (SaveModel TagBest) = 0"
  by (simp add: loop_eval sample_defs primary_acc_def)

subsection \<open>Checkpoint cadence\<close>

lemma eo_evaluate_and_log: "emits_only after_save (evaluate_and_log a g l en e ts b)"
  unfolding evaluate_and_log_def evaluate_primary_def evaluate_ema_def track_best_def
    update_logger_info_def log_perf_def Let_def
  by (auto intro!: eo simp: after_save_def split: option.splits)


lemma save_params_ok:
  assumes "saving_enabled a \<longrightarrow> save_ckpt_freq a \<noteq> 0"
  shows "snd (save_params a e) = Inr ()"
  using assms by (auto simp: save_params_def on_cond_def ret_def emit_def)

lemma save_params_events:
  assumes "saving_enabled a \<longrightarrow> save_ckpt_freq a \<noteq> 0"
  shows "fst (save_params a e) =
     (if saving_enabled a \<and> cadence_due a e then [SaveModel (TagEpoch e)] else [])"
  using assms by (auto simp: save_params_def on_cond_def ret_def emit_def)

lemma epoch_body_trace:
  assumes "saving_enabled a \<longrightarrow> save_ckpt_freq a \<noteq> 0" and "g_mixup_fn g \<noteq> Unbound"
  shows "fst (epoch_body a g l en e b) =
     fst (set_steps a l e) @ TrainOneEpoch e #
       (if saving_enabled a \<and> cadence_due a e then [SaveModel (TagEpoch e)] else []) @
       fst (evaluate_and_log a g l en e (train_one_epoch en e) b)"
proof -
  have "fst (epoch_body a g l en e b) =
     fst (set_steps a l e) @ TrainOneEpoch e # fst (save_params a e) @
       fst (evaluate_and_log a g l en e (train_one_epoch en e) b)"
    using save_params_ok[OF assms(1), of e] assms(2)
    by (simp add: epoch_body_def Let_def fst_thn_ok set_steps_ok train_pass_ok train_pass_events)
  then show ?thesis
    by (simp only: save_params_events[OF assms(1)])
qed

lemma epoch_body_stalled:
  assumes "g_mixup_fn g = Unbound"
  shows "fst (epoch_body a g l en e b) = fst (set_steps a l e)"
  using assms
  by (simp add: epoch_body_def Let_def fst_thn_ok set_steps_ok train_pass_def thn_raise run_parts)

lemma evaluate_first:
  "data_loader_val l \<noteq> None \<Longrightarrow>
   take 1 (fst (evaluate_and_log a g l en e ts b)) = [Evaluate Primary]"
  by (simp add: evaluate_and_log_def evaluate_primary_def Let_def thn_emit bnd_def split: sum.splits)

lemma epoch_body_members:
  assumes "saving_enabled a \<longrightarrow> save_ckpt_freq a \<noteq> 0"
  shows "(SaveModel (TagEpoch k) \<in> set (fst (epoch_body a g l en e b)) \<longleftrightarrow>
            g_mixup_fn g \<noteq> Unbound \<and> k = e \<and> saving_enabled a \<and> cadence_due a e) \<and>
         (TrainOneEpoch k \<in> set (fst (epoch_body a g l en e b)) \<longleftrightarrow>
            g_mixup_fn g \<noteq> Unbound \<and> k = e)"
proof -
  have t: "list_all after_save (fst (evaluate_and_log a g l en e (train_one_epoch en e) b))"
    using eo_evaluate_and_log by (simp add: emits_only_def)
  have s: "list_all is_set_step (fst (set_steps a l e))"
    by (rule set_steps_events)
  have n1: "SaveModel (TagEpoch k) \<notin> set (fst (evaluate_and_log a g l en e (train_one_epoch en e) b))"
    "TrainOneEpoch k \<notin> set (fst (evaluate_and_log a g l en e (train_one_epoch en e) b))"
    using t by (auto simp: list_all_iff after_save_def)
  have n2: "SaveModel (TagEpoch k) \<notin> set (fst (set_steps a l e))"
    "TrainOneEpoch k \<notin> set (fst (set_steps a l e))"
    using s by (auto simp: list_all_iff is_set_step_def)
  show ?thesis
  proof (cases "g_mixup_fn g = Unbound")
    case True
    then show ?thesis
      unfolding epoch_body_stalled[OF True] using n2 by simp
  next
    case False
    then show ?thesis
      unfolding epoch_body_trace[OF assms False] using n1 n2 by auto
  qed
qed

lemma training_loop_members:
  assumes "saving_enabled a \<longrightarrow> save_ckpt_freq a \<noteq> 0"
  shows "SaveModel (TagEpoch k) \<in> set (fst (training_loop a g l en es b)) \<longleftrightarrow>
         saving_enabled a \<and> cadence_due a k \<and> TrainOneEpoch k \<in> set (fst (training_loop a g l en es b))"
proof (induction es arbitrary: b)
  case Nil
  show ?case by (simp add: run_parts)
next
  case (Cons e es)
  note m = epoch_body_members[OF assms, where k=k and g=g and l=l and en=en and e=e and b=b]
  show ?case
  proof (cases "snd (epoch_body a g l en e b)")
    case (Inl err)
    then have "fst (training_loop a g l en (e # es) b) = fst (epoch_body a g l en e b)"
      by (simp add: bnd_def)
    with m show ?thesis by auto
  next
    case (Inr b1)
    then have "fst (training_loop a g l en (e # es) b) =
        fst (epoch_body a g l en e b) @ fst (training_loop a g l en es b1)"
      by (simp add: fst_bnd_ok)
    with m Cons.IH[of b1] show ?thesis by auto
  qed
qed

lemma training_loop_trained:
  "snd (training_loop a g l en es b) = Inr b' \<Longrightarrow>
   (TrainOneEpoch k \<in> set (fst (training_loop a g l en es b)) \<longleftrightarrow> k \<in> set es)"
proof (induction es arbitrary: b)
  case Nil
  show ?case by (simp add: run_parts)
next
  case (Cons e es)
  from Cons.prems obtain b1 where b1: "snd (epoch_body a g l en e b) = Inr b1"
    and rest: "snd (training_loop a g l en es b1) = Inr b'"
    by (auto simp: snd_bnd_Inr)
  from b1 have ok: "snd (save_params a e) = Inr ()" and bound: "g_mixup_fn g \<noteq> Unbound"
    by (auto simp: epoch_body_def Let_def snd_thn_Inr train_pass_ok)
  have t: "list_all after_save (fst (evaluate_and_log a g l en e (train_one_epoch en e) b))"
    using eo_evaluate_and_log by (simp add: emits_only_def)
  have sp: "TrainOneEpoch k \<notin> set (fst (save_params a e))"
    by (auto simp: save_params_def on_cond_def run_parts)
  have s: "list_all is_set_step (fst (set_steps a l e))"
    by (rule set_steps_events)
  have "fst (epoch_body a g l en e b) =
       fst (set_steps a l e) @ TrainOneEpoch e # fst (save_params a e) @
       fst (evaluate_and_log a g l en e (train_one_epoch en e) b)"
    using ok bound
    by (simp add: epoch_body_def Let_def fst_thn_ok set_steps_ok train_pass_ok train_pass_events)
  then have "TrainOneEpoch k \<in> set (fst (epoch_body a g l en e b)) \<longleftrightarrow> k = e"
    using t s sp by (auto simp: list_all_iff after_save_def is_set_step_def)
  moreover have "fst (training_loop a g l en (e # es) b) =
        fst (epoch_body a g l en e b) @ fst (training_loop a g l en es b1)"
    using b1 by (simp add: fst_bnd_ok)
  ultimately show ?case using Cons.IH[OF rest] by auto
qed

text \<open>
  C7 (as amended). Provided \<open>args.save_ckpt_freq\<close> is not zero whenever saving is enabled:
  the loop saves the state tagged by the epoch number \<open>k\<close> exactly when saving is enabled
  (\<open>args.output_dir\<close> non-empty and \<open>args.save_ckpt\<close>), the training pass of epoch \<open>k\<close> has
  run, and \<open>(k + 1) % save_ckpt_freq == 0\<close> or \<open>k + 1 == epochs\<close>; a loop that returns has
  trained exactly the epochs of its range; and in an iteration whose training pass runs,
  that save stands right after the training pass and before everything else, the
  evaluation first. With saving disabled no save tagged by an epoch number is made.
\<close>

theorem checkpoint_cadence:
  assumes "saving_enabled a \<longrightarrow> save_ckpt_freq a \<noteq> 0"
  shows "(SaveModel (TagEpoch k) \<in> set (fst (training_loop a g l en es b)) \<longleftrightarrow>
            saving_enabled a \<and> cadence_due a k \<and>
            TrainOneEpoch k \<in> set (fst (training_loop a g l en es b))) \<and>
         (snd (training_loop a g l en es b) = Inr b' \<longrightarrow>
            (TrainOneEpoch k \<in> set (fst (training_loop a g l en es b)) \<longleftrightarrow> k \<in> set es)) \<and>
         (TrainOneEpoch e \<in> set (fst (epoch_body a g l en e b)) \<longrightarrow>
            (\<exists>pre post.
               fst (epoch_body a g l en e b) =
                 pre @ TrainOneEpoch e #
                 (if saving_enabled a \<and> cadence_due a e then [SaveModel (TagEpoch e)] else []) @ post \<and>
               list_all is_set_step pre \<and> list_all after_save post \<and>
               (data_loader_val l \<noteq> None \<longrightarrow> take 1 post = [Evaluate Primary])))"
proof -
  have "\<exists>pre post.
            fst (epoch_body a g l en e b) =
              pre @ TrainOneEpoch e #
              (if saving_enabled a \<and> cadence_due a e then [SaveModel (TagEpoch e)] else []) @ post \<and>
            list_all is_set_step pre \<and> list_all after_save post \<and>
            (data_loader_val l \<noteq> None \<longrightarrow> take 1 post = [Evaluate Primary])"
    if t: "TrainOneEpoch e \<in> set (fst (epoch_body a g l en e b))"
  proof -
    from t epoch_body_members[OF assms, of e g l en e b] have bound: "g_mixup_fn g \<noteq> Unbound"
      by simp
    have "list_all after_save (fst (evaluate_and_log a g l en e (train_one_epoch en e) b))"
      using eo_evaluate_and_log by (simp add: emits_only_def)
    with epoch_body_trace[OF assms bound] set_steps_events evaluate_first
    show ?thesis by blast
  qed
  with training_loop_members[OF assms] training_loop_trained show ?thesis
    by blast
qed

text \<open>
  With three epochs and \<open>save_ckpt_freq = 2\<close>: no save after epoch 0, one after epoch 1
  (cadence) and one after epoch 2 (final epoch).
\<close>

theorem checkpoint_cadence_witness:
  "(saving_enabled base_args \<and> save_ckpt_freq base_args \<noteq> 0) \<and>
   SaveModel (TagEpoch 0) \<notin>
     set (fst (training_loop base_args patched_globals base_locals base_env [0, 1, 2] (initial_best base_args))) \<and>
   SaveModel (TagEpoch 1) \<in>
     set (fst (training_loop base_args patched_globals base_locals base_env [0, 1, 2] (initial_best base_args))) \<and>
   SaveModel (TagEpoch 2) \<in>
     set (fst (training_loop base_args patched_globals base_locals base_env [0, 1, 2] (initial_best base_args)))"
proof -
  have h: "saving_enabled base_args \<longrightarrow> save_ckpt_freq base_args \<noteq> 0"
    by (simp add: base_args_def)
  have s: "saving_enabled base_args \<and> save_ckpt_freq base_args \<noteq> 0"
    by (simp add: saving_enabled_def base_args_def)
  have r: "snd (training_loop base_args patched_globals base_locals base_env [0, 1, 2] (initial_best base_args)) =
     Inr \<lparr>max_accuracy = 72, max_accuracy_ema = None\<rparr>"
    by (simp add: loop_eval sample_defs)
  have d: "\<not> cadence_due base_args 0" "cadence_due base_args 1" "cadence_due base_args 2"
    by (simp_all add: cadence_due_def base_args_def)
  from checkpoint_cadence[OF h, where k=0 and es="[0, 1, 2]" and g=patched_globals and l=base_locals
        and en=base_env and b="initial_best base_args"]
     checkpoint_cadence[OF h, where k=1 and es="[0, 1, 2]" and g=patched_globals and l=base_locals
        and en=base_env and b="initial_best base_args"]
     checkpoint_cadence[OF h, where k=2 and es="[0, 1, 2]" and g=patched_globals and l=base_locals
        and en=base_env and b="initial_best base_args"]
  show ?thesis using r s d by simp
qed

text \<open>
  C7 as stated fails when \<open>args.save_ckpt\<close> is false: epoch 2 is the final epoch, its
  training pass runs, and no checkpoint tagged 2 is saved.
\<close>

theorem checkpoint_cadence_counterexample:
  "2 + 1 = epochs (base_args\<lparr>save_ckpt := False\<rparr>) \<and>
   TrainOneEpoch 2 \<in> set (fst (epoch_body (base_args\<lparr>save_ckpt := False\<rparr>) patched_globals base_locals base_env 2
                                   (initial_best (base_args\<lparr>save_ckpt := False\<rparr>)))) \<and>
   SaveModel (TagEpoch 2) \<notin> set (fst (epoch_body (base_args\<lparr>save_ckpt := False\<rparr>) patched_globals base_locals base_env 2
                                   (initial_best (base_args\<lparr>save_ckpt := False\<rparr>))))"
  by (simp add: loop_eval sample_defs)

subsection \<open>The accumulators never fall below zero\<close>

lemma evaluate_ema_bound:
  assumes "snd (evaluate_ema a l en e mxe ls) = Inr r" and "\<forall>m. mxe = Some m \<longrightarrow> 0 \<le> m"
  shows "\<forall>m. fst r = Some m \<longrightarrow> 0 \<le> m"
  using assms
  by (auto simp: evaluate_ema_def Let_def snd_thn_Inr snd_bnd_Inr run_parts
      split: if_splits option.splits)

lemma epoch_body_bound:
  assumes "snd (epoch_body a g l en e b) = Inr b'" and "0 \<le> max_accuracy b"
    and "\<forall>m. max_accuracy_ema b = Some m \<longrightarrow> 0 \<le> m"
  shows "0 \<le> max_accuracy b' \<and> (\<forall>m. max_accuracy_ema b' = Some m \<longrightarrow> 0 \<le> m)"
proof (cases "data_loader_val l")
  case None
  with assms show ?thesis
    by (auto simp: epoch_body_def evaluate_and_log_def Let_def snd_thn_Inr snd_bnd_Inr run_parts)
next
  case (Some ld)
  with assms(1) obtain r r' where ep: "snd (evaluate_primary a g l en e (train_one_epoch en e) (max_accuracy b)) = Inr r"
    and ee: "snd (evaluate_ema a l en e (max_accuracy_ema b) (snd r)) = Inr r'"
    and b': "b' = \<lparr>max_accuracy = fst r, max_accuracy_ema = fst r'\<rparr>"
    by (auto simp: epoch_body_def evaluate_and_log_def Let_def snd_thn_Inr snd_bnd_Inr run_parts)
  from evaluate_primary_result[OF ep] assms(2) have "0 \<le> fst r" by auto
  with evaluate_ema_bound[OF ee assms(3)] b' show ?thesis by simp
qed

lemma training_loop_bound:
  assumes "snd (training_loop a g l en es b) = Inr b'" and "0 \<le> max_accuracy b"
    and "\<forall>m. max_accuracy_ema b = Some m \<longrightarrow> 0 \<le> m"
  shows "0 \<le> max_accuracy b' \<and> (\<forall>m. max_accuracy_ema b' = Some m \<longrightarrow> 0 \<le> m)"
  using assms
proof (induction es arbitrary: b)
  case Nil
  then show ?case by (simp add: run_parts)
next
  case (Cons e es)
  from Cons.prems(1) obtain b1 where b1: "snd (epoch_body a g l en e b) = Inr b1"
    and rest: "snd (training_loop a g l en es b1) = Inr b'"
    by (auto simp: snd_bnd_Inr)
  from epoch_body_bound[OF b1 Cons.prems(2,3)] Cons.IH[OF rest] show ?case by blast
qed

lemma no_best_below_zero:
  assumes "0 \<le> max_accuracy b" and "map_of (evaluate en Primary (Some e)) ''acc1'' = Some acc" and "acc \<le> 0"
  shows "SaveModel TagBest \<notin> set (fst (epoch_body a g l en e b))"
proof -
  have "emits_only (\<lambda>ev. ev \<noteq> SaveModel TagBest) (epoch_body a g l en e b)"
    unfolding epoch_body_def evaluate_and_log_def set_steps_def train_pass_def save_params_def
      evaluate_primary_def evaluate_ema_def track_best_def update_logger_info_def log_perf_def Let_def
    using assms
    by (auto intro!: eo simp: getitem_Some run_parts split: option.splits)
  then show ?thesis by (auto simp: emits_only_def list_all_iff)
qed

lemma no_best_ema_below_zero:
  assumes "\<forall>m. max_accuracy_ema b = Some m \<longrightarrow> 0 \<le> m"
    and "map_of (evaluate en EmaShadow (Some e)) ''acc1'' = Some acc" and "acc \<le> 0"
  shows "SaveModel TagBestEma \<notin> set (fst (epoch_body a g l en e b))"
proof -
  have "emits_only (\<lambda>ev. ev \<noteq> SaveModel TagBestEma) (epoch_body a g l en e b)"
    unfolding epoch_body_def evaluate_and_log_def set_steps_def train_pass_def save_params_def
      evaluate_primary_def evaluate_ema_def track_best_def update_logger_info_def log_perf_def Let_def
    using assms
    by (auto intro!: eo simp: getitem_Some run_parts split: option.splits)
  then show ?thesis by (auto simp: emits_only_def list_all_iff)
qed

text \<open>
  C10. Both accumulators start at 0.0 (the EMA one exists when \<open>args.model_ema\<close> and
  \<open>args.model_ema_eval\<close> are set). After any number of completed epochs both are at least
  0.0, and in the next epoch an accuracy of at most 0.0 triggers neither a \<open>"best"\<close> nor a
  \<open>"best-ema"\<close> save; with no completed epoch this is the first observation of the run.
\<close>

theorem accumulators_start_at_zero:
  assumes "snd (training_loop a g l en es (initial_best a)) = Inr b"
  shows "max_accuracy (initial_best a) = 0 \<and>
     (model_ema a \<and> model_ema_eval a \<longrightarrow> max_accuracy_ema (initial_best a) = Some 0) \<and>
     0 \<le> max_accuracy b \<and>
     (\<forall>m. max_accuracy_ema b = Some m \<longrightarrow> 0 \<le> m) \<and>
     (\<forall>acc. map_of (evaluate en Primary (Some e)) ''acc1'' = Some acc \<and> acc \<le> 0 \<longrightarrow>
        SaveModel TagBest \<notin> set (fst (epoch_body a g l en e b))) \<and>
     (\<forall>acc. map_of (evaluate en EmaShadow (Some e)) ''acc1'' = Some acc \<and> acc \<le> 0 \<longrightarrow>
        SaveModel TagBestEma \<notin> set (fst (epoch_body a g l en e b)))"
proof -
  have i: "0 \<le> max_accuracy (initial_best a)"
    "\<forall>m. max_accuracy_ema (initial_best a) = Some m \<longrightarrow> 0 \<le> m"
    by (simp_all add: initial_best_def)
  note bd = training_loop_bound[OF assms i]
  from bd no_best_below_zero[of b en e _ a g l] no_best_ema_below_zero[of b en e _ a g l]
  show ?thesis
    by (simp add: initial_best_def)
qed


text \<open>A first observation of exactly 0.0, for both models, is evaluated and saves nothing.\<close>

theorem accumulators_start_at_zero_witness:
  "snd (training_loop ema_args patched_globals base_locals zero_env [] (initial_best ema_args)) =
     Inr \<lparr>max_accuracy = 0, max_accuracy_ema = Some 0\<rparr> \<and>
   map_of (evaluate zero_env Primary (Some 0)) ''acc1'' = Some 0 \<and>
   map_of (evaluate zero_env EmaShadow (Some 0)) ''acc1'' = Some 0 \<and>
   Evaluate Primary \<in> set (fst (epoch_body ema_args patched_globals base_locals zero_env 0
                                   \<lparr>max_accuracy = 0, max_accuracy_ema = Some 0\<rparr>)) \<and>
   Evaluate EmaShadow \<in> set (fst (epoch_body ema_args patched_globals base_locals zero_env 0
                                   \<lparr>max_accuracy = 0, max_accuracy_ema = Some 0\<rparr>)) \<and>
   SaveModel TagBest \<notin> set (fst (epoch_body ema_args patched_globals base_locals zero_env 0
                                   \<lparr>max_accuracy = 0, max_accuracy_ema = Some 0\<rparr>)) \<and>
   SaveModel TagBestEma \<notin> set (fst (epoch_body ema_args patched_globals base_locals zero_env 0
                                   \<lparr>max_accuracy = 0, max_accuracy_ema = Some 0\<rparr>))"
proof -
  have r: "snd (training_loop ema_args patched_globals base_locals zero_env [] (initial_best ema_args)) =
     Inr \<lparr>max_accuracy = 0, max_accuracy_ema = Some 0\<rparr>"
    by (simp add: ret_def initial_best_def ema_args_def)
  have p: "map_of (evaluate zero_env Primary (Some 0)) ''acc1'' = Some 0"
    "map_of (evaluate zero_env EmaShadow (Some 0)) ''acc1'' = Some 0"
    by (simp_all add: zero_env_def)
  have e: "Evaluate Primary \<in> set (fst (epoch_body ema_args patched_globals base_locals zero_env 0
                                   \<lparr>max_accuracy = 0, max_accuracy_ema = Some 0\<rparr>))"
    "Evaluate EmaShadow \<in> set (fst (epoch_body ema_args patched_globals base_locals zero_env 0
                                   \<lparr>max_accuracy = 0, max_accuracy_ema = Some 0\<rparr>))"
    by (simp_all add: loop_eval sample_defs ema_args_def zero_env_def)
  from accumulators_start_at_zero[OF r, where e=0] p e r show ?thesis
    by simp
qed

subsection \<open>Lines 29-172 of \<open>main\<close>\<close>


lemma mem_bnd:
  "ev \<in> set (fst (bnd m f)) \<longleftrightarrow> ev \<in> set (fst m) \<or> (\<exists>x. snd m = Inr x \<and> ev \<in> set (fst (f x)))"
  by (auto simp: bnd_def split: sum.splits)

lemma mem_thn:
  "ev \<in> set (fst (thn m k)) \<longleftrightarrow> ev \<in> set (fst m) \<or> (snd m = Inr () \<and> ev \<in> set (fst k))"
  by (auto simp: thn_def mem_bnd)

lemma fst_load_state_dict: "fst (load_state_dict st table prefix) = []"
  by (induction st table prefix rule: load_state_dict.induct)
     (auto simp: fst_bnd run_parts split: sum.splits option.splits obj.splits)

lemma eo_load_state_dict: "emits_only P (load_state_dict st table prefix)"
  by (simp add: emits_only_def fst_load_state_dict)


lemma eo_as_dict: "emits_only P (as_dict ob)"
  by (auto simp: as_dict_def intro: eo split: obj.splits)

lemma eo_shape_of: "emits_only P (shape_of ob)"
  by (auto simp: shape_of_def intro: eo split: obj.splits)

lemma eo_drop: "emits_only P (drop_mismatched st k cm)"
  unfolding drop_mismatched_def
  by (auto intro!: eo eo_shape_of split: option.splits)


lemma eo_load_file: "(\<And>p. P (TorchLoad p)) \<Longrightarrow> emits_only P (load_file en path)"
  unfolding load_file_def
  by (auto intro!: eo split: option.splits)



lemma eo_steps: "emits_only P (steps_per_epoch a d)"
  unfolding steps_per_epoch_def Let_def
  by (intro eo)







lemma make_optimizer_ok:
  "snd (make_optimizer v) = Inr u \<Longrightarrow> \<exists>x. CreateOptimizer x \<in> set (fst (make_optimizer v))"
  by (auto simp: make_optimizer_def run_parts split: local_var.splits)

lemma make_schedules_ok:
  assumes "snd (make_schedules lg a n) = Inr a'"
  shows "lg = Some () \<and> a' = assign_weight_decay_end a \<and>
     CosineScheduler (lr a) (min_lr a) (epochs a) n (Some (warmup_epochs a)) (Some (warmup_steps a))
       \<in> set (fst (make_schedules lg a n)) \<and>
     CosineScheduler (weight_decay a)
       (case weight_decay_end a of None \<Rightarrow> weight_decay a | Some w \<Rightarrow> w) (epochs a) n None None
       \<in> set (fst (make_schedules lg a n))"
  using assms
  by (cases lg)
     (auto simp: make_schedules_def Let_def info_def run_simps mem_thn mem_bnd snd_thn_Inr snd_bnd_Inr
        assign_weight_decay_end_def split: option.splits)

lemma choose_criterion_ok: "snd (choose_criterion g a) = Inr c \<Longrightarrow> g_mixup_fn g \<noteq> Unbound"
  by (auto simp: choose_criterion_def run_parts split: binding.splits)

lemma prepare_ok:
  assumes "snd (prepare g en a) = Inr p"
  shows "eval a = False \<and> g_mixup_fn g \<noteq> Unbound \<and>
     fst p = assign_weight_decay_end (assign_dist_eval (assign_nb_classes en a)) \<and>
     logger (fst (snd p)) = Some () \<and> data_loader_val (fst (snd p)) \<noteq> None \<and>
     (\<exists>x. CreateOptimizer x \<in> set (fst (prepare g en a))) \<and>
     (\<exists>b f e n. CosineScheduler b f e n None None \<in> set (fst (prepare g en a))) \<and>
     (\<exists>b f e n we ws. CosineScheduler b f e n (Some we) (Some ws) \<in> set (fst (prepare g en a)))"
proof -
  let ?a2 = "assign_dist_eval (assign_nb_classes en a)"
  let ?lg = "if eval a = False then Some () else None"
  from assms obtain st n v a3 c where
    i: "snd (initialize_model g ?lg en ?a2) = Inr st" and
    e: "snd (make_model_ema ?lg ?a2) = Inr ()" and
    s: "snd (steps_per_epoch ?a2 (fst (build_dataset en True))) = Inr n" and
    m: "snd (make_assigner ?a2) = Inr v" and
    o: "snd (make_optimizer v) = Inr ()" and
    sc: "snd (make_schedules ?lg ?a2 n) = Inr a3" and
    cr: "snd (choose_criterion g a3) = Inr c" and
    p: "fst p = a3" "logger (fst (snd p)) = ?lg" "data_loader_val (fst (snd p)) \<noteq> None"
    by (auto simp: prepare_def Let_def snd_thn_Inr snd_bnd_Inr run_parts split: if_splits)
  note so = make_schedules_ok[OF sc]
  from so have ev: "eval a = False" by (simp split: if_splits)
  have pre: "snd (thn (if disable_eval (assign_nb_classes en a) then emit (SetArg (DistEval False))
                        else emit (BuildDataset False))
               (thn (case log_dir ?a2 of None \<Rightarrow> ret ()
                     | Some d \<Rightarrow> thn (emit (MakeLogDir d)) (emit (TensorboardLogger d)))
                 (on_cond (enable_wandb ?a2) (emit WandbLogger)))) = Inr ()"
    by (auto simp: snd_thn_Inr run_parts on_cond_def split: option.splits)
  have mem: "\<And>ev. ev \<in> set (fst (make_optimizer v)) \<or> ev \<in> set (fst (make_schedules ?lg ?a2 n))
       \<Longrightarrow> ev \<in> set (fst (prepare g en a))"
    using assms i e s m o sc cr
    by (auto simp: prepare_def Let_def mem_thn mem_bnd snd_thn_Inr snd_bnd_Inr run_parts on_cond_def
          split: if_splits option.splits)
  from make_optimizer_ok[OF o] mem have "\<exists>x. CreateOptimizer x \<in> set (fst (prepare g en a))"
    by blast
  moreover from so mem have "\<exists>b f e n. CosineScheduler b f e n None None \<in> set (fst (prepare g en a))"
    by blast
  moreover from so mem
  have "\<exists>b f e n we ws. CosineScheduler b f e n (Some we) (Some ws) \<in> set (fst (prepare g en a))"
    by blast
  ultimately show ?thesis
    using so p ev choose_criterion_ok[OF cr] by simp
qed






lemma main_failed_prepare:
  "snd (prepare g en a) = Inl err \<Longrightarrow> main g en a = (fst (prepare g en a), Inl err)"
  by (simp add: main_def bnd_def)

lemma eval_mode_stops:
  assumes "eval a"
  shows "\<exists>err. main g en a = (fst (prepare g en a), Inl err)"
proof (cases "snd (prepare g en a)")
  case (Inl err)
  then show ?thesis by (auto dest: main_failed_prepare)
next
  case (Inr p)
  from prepare_ok[OF Inr] assms show ?thesis by simp
qed




lemma prepare_in_main: "ev \<in> set (fst (prepare g en a)) \<Longrightarrow> ev \<in> set (fst (main g en a))"
  by (simp add: main_def mem_bnd)

text \<open>With \<open>args.eval\<close> true there is no logger, and nothing that logs is passed.\<close>

lemma info_None: "info None msg = raise_err (AttributeError ''info'')"
  by (simp add: info_def)

lemma eo_search_None: "emits_only P (search_model_key None ks ck)"
  by (induction ks) (auto simp: info_None thn_raise intro!: eo split: option.splits)

lemma eo_select_None: "emits_only P (select_weights None keys ob st)"
  unfolding select_weights_def
  by (intro eo eo_as_dict eo_search_None eo_drop)

lemma eo_initialize_model_None: "emits_only is_unlogged_event (initialize_model g None en a)"
  unfolding initialize_model_def load_finetune_def
  by (intro eo eo_load_file eo_select_None eo_load_state_dict) (simp_all add: is_unlogged_event_def)

lemma eo_make_model_ema_None: "emits_only is_unlogged_event (make_model_ema None a)"
  unfolding make_model_ema_def info_None
  by (intro eo) (simp_all add: is_unlogged_event_def)

lemma eo_make_assigner_unlogged: "emits_only is_unlogged_event (make_assigner a)"
  unfolding make_assigner_def Let_def
  by (intro eo) (simp_all add: is_unlogged_event_def)

lemma eo_make_optimizer_unlogged: "emits_only is_unlogged_event (make_optimizer v)"
  unfolding make_optimizer_def
  by (auto intro!: eo simp: is_unlogged_event_def split: local_var.splits)

lemma make_schedules_None: "make_schedules None a n = raise_err (AttributeError ''info'')"
  by (simp add: make_schedules_def info_None thn_raise)

lemma eo_prepare_eval:
  assumes "eval a"
  shows "emits_only is_unlogged_event (prepare g en a)"
proof -
  have lg: "(if eval a = False then Some () else None) = (None :: unit option)"
    using assms by simp
  show ?thesis
    unfolding prepare_def Let_def lg make_schedules_None
    using assms
    by (intro eo eo_initialize_model_None eo_make_model_ema_None eo_make_assigner_unlogged
          eo_make_optimizer_unlogged eo_steps)
       (auto simp: is_unlogged_event_def run_parts intro!: eo split: option.splits)
qed

text \<open>
  C2. The script sets \<open>logger = None\<close> exactly when \<open>args.eval\<close> is true (lines 36-39) and
  calls \<open>logger.info\<close> unconditionally on line 149 (and on line 98, when a preferred key
  is found in the pretrained file). So whenever \<open>args.eval\<close> is true, \<open>main\<close> ends with an
  exception before it reaches line 174: it loads no weights into the model with
  \<open>model.load_state_dict\<close>, evaluates nothing, reports nothing, generates no schedule,
  trains no epoch and saves no checkpoint.
\<close>

theorem evaluation_only_mode_unreachable:
  assumes "eval a"
  shows "(\<exists>err. snd (main g en a) = Inl err) \<and>
     ModelLoadStateDict ks \<notin> set (fst (main g en a)) \<and>
     Evaluate t \<notin> set (fst (main g en a)) \<and>
     Info m \<notin> set (fst (main g en a)) \<and>
     CosineScheduler b f e n we ws \<notin> set (fst (main g en a)) \<and>
     TrainOneEpoch k \<notin> set (fst (main g en a)) \<and>
     SaveModel tg \<notin> set (fst (main g en a))"
proof -
  from eval_mode_stops[OF assms] obtain err where r: "main g en a = (fst (prepare g en a), Inl err)" ..
  from eo_prepare_eval[OF assms] r have "\<And>ev. ev \<in> set (fst (main g en a)) \<Longrightarrow> is_unlogged_event ev"
    by (simp add: emits_only_def list_all_iff)
  then have "\<And>ev. \<not> is_unlogged_event ev \<Longrightarrow> ev \<notin> set (fst (main g en a))"
    by blast
  then show ?thesis
    using r by (simp add: is_unlogged_event_def)
qed

subsection \<open>Runs on sample inputs\<close>

lemma bnd_pair_Inr: "bnd (evs, Inr x) f = (case f x of (evs', r) \<Rightarrow> (evs @ evs', r))"
  by (simp add: bnd_def split: prod.splits)

lemma bnd_pair_Inl: "bnd (evs, Inl e) f = (evs, Inl e)"
  by (simp add: bnd_def)

lemmas run_eval = ret_def raise_err_def emit_def bnd_pair_Inr bnd_pair_Inl thn_def on_cond_def
  info_def getitem_def len_dataset_def Let_def

lemmas prepare_eval = prepare_def initialize_model_def load_finetune_def select_weights_def
  load_file_def as_dict_def shape_of_def drop_mismatched_def dict_del_def make_model_ema_def
  steps_per_epoch_def make_assigner_def make_optimizer_def assign_nb_classes_def assign_dist_eval_def
  assign_weight_decay_end_def make_schedules_def choose_criterion_def

lemmas stage_eval = training_stage_def epoch_body_def evaluate_and_log_def set_steps_def train_pass_def
  evaluate_primary_def evaluate_ema_def track_best_def save_params_def update_logger_info_def
  log_perf_def saving_enabled_def cadence_due_def initial_best_def eval_only_def subscript_def
  items_of_def

lemmas sample_data = sample_defs sample_state_def sample_table_def sample_artifact_def

text \<open>
  C2 on the sample files, with \<open>args.eval\<close> true. When the pretrained file is a flat
  table, the model is built, loaded and given an optimizer, and line 149 raises
  \<open>AttributeError\<close>; binding \<open>mixup_fn\<close> changes nothing. When the pretrained file nests its
  table under \<open>"model"\<close>, line 98 raises already. In neither run is the checkpoint
  \<open>checkpoint/cub.pth\<close> opened.
\<close>

theorem evaluation_only_mode_unreachable_witness:
  "eval eval_args \<and>
   (\<exists>err. snd (main module_globals base_env eval_args) = Inl err) \<and>
   ModelLoadStateDict [''stem.weight'', ''head.weight'', ''head.bias'']
     \<notin> set (fst (main module_globals base_env eval_args)) \<and>
   Evaluate Primary \<notin> set (fst (main module_globals base_env eval_args)) \<and>
   Info (AccuracyOnTestImages 100 72) \<notin> set (fst (main module_globals base_env eval_args)) \<and>
   CosineScheduler (1 / 1000) (1 / 1000000) 3 10 (Some 0) (Some (- 1))
     \<notin> set (fst (main module_globals base_env eval_args)) \<and>
   TrainOneEpoch 0 \<notin> set (fst (main module_globals base_env eval_args)) \<and>
   SaveModel TagBest \<notin> set (fst (main module_globals base_env eval_args)) \<and>
   snd (main module_globals base_env eval_args) = Inl (AttributeError ''info'') \<and>
   snd (main patched_globals base_env eval_args) = Inl (AttributeError ''info'') \<and>
   CreateOptimizer True \<in> set (fst (main module_globals base_env eval_args)) \<and>
   TorchLoad ''checkpoint/cub.pth'' \<notin> set (fst (main module_globals base_env eval_args)) \<and>
   main module_globals base_env (base_args\<lparr>eval := True\<rparr>) =
     ([ManualSeed 0, BuildDataset True, SetArg (NbClasses 200), BuildDataset False,
       ConstructModel 200, TorchLoad ''pretrained.pth''],
      Inl (AttributeError ''info''))"
proof -
  have e: "eval eval_args" by (simp add: eval_args_def base_args_def)
  have r: "snd (main module_globals base_env eval_args) = Inl (AttributeError ''info'')"
    by (simp add: main_def prepare_eval run_eval sample_data eval_args_def)
  have p: "snd (main patched_globals base_env eval_args) = Inl (AttributeError ''info'')"
    by (simp add: main_def prepare_eval run_eval sample_data eval_args_def)
  have c: "CreateOptimizer True \<in> set (fst (main module_globals base_env eval_args))"
    by (simp add: main_def prepare_eval run_eval sample_data eval_args_def)
  have t: "TorchLoad ''checkpoint/cub.pth'' \<notin> set (fst (main module_globals base_env eval_args))"
    by (simp add: main_def prepare_eval run_eval sample_data eval_args_def)
  have n: "main module_globals base_env (base_args\<lparr>eval := True\<rparr>) =
     ([ManualSeed 0, BuildDataset True, SetArg (NbClasses 200), BuildDataset False,
       ConstructModel 200, TorchLoad ''pretrained.pth''],
      Inl (AttributeError ''info''))"
    by (simp add: main_def prepare_eval run_eval sample_data upto.simps)
  from evaluation_only_mode_unreachable[OF e, of module_globals base_env
         "[''stem.weight'', ''head.weight'', ''head.bias'']" Primary "AccuracyOnTestImages 100 72"
         "1 / 1000" "1 / 1000000" 3 10 "Some 0" "Some (- 1)" 0 TagBest]
  show ?thesis using e r p c t n by simp
qed

text \<open>
  The strict load of line 179 on the sample files: the table of \<open>checkpoint/cub.pth\<close>,
  restricted to the model's keys, has a three-class head where the model has two classes,
  and is refused; a table with the model's own shapes is accepted.
\<close>

lemma strict_load_samples:
  "strict_load sample_state (filter (\<lambda>kv. fst kv \<in> set (map fst sample_state)) sample_table) =
     ([], Inl (RuntimeError ''load_state_dict''))"
  "strict_load sample_state (map (\<lambda>kt. (fst kt, OTensor (snd kt))) loaded_state) = ([], Inr ())"
  by (simp_all add: strict_load_def loads_into_def sample_state_def sample_table_def loaded_state_def
        ret_def raise_err_def)

text \<open>
  C5 at \<open>args.model = 'convnext_small'\<close>: the logger and both datasets are created, line
  108 builds its \<open>ValueError\<close> without raising it, and the run ends on line 110 with a
  \<open>NameError\<close> for the global \<open>model\<close>. When an earlier call has left a model in that
  global, the run goes on and builds an optimizer for it.
\<close>

theorem unsupported_model_falls_through:
  "main module_globals base_env (base_args\<lparr>model := ''convnext_small''\<rparr>) =
     ([CreateLogger, ManualSeed 0, BuildDataset True, SetArg (NbClasses 200), BuildDataset False],
      Inl (NameError ''model'')) \<and>
   CreateOptimizer True \<in>
     set (fst (main (module_globals\<lparr>g_model := True\<rparr>) base_env (base_args\<lparr>model := ''convnext_small''\<rparr>)))"
  by (simp add: main_def prepare_eval run_eval sample_data)

text \<open>
  C3 at \<open>args.layer_decay = 1.0\<close>: the model is built and moved to the device, no
  assigner is made, and line 144 raises \<open>UnboundLocalError\<close> for \<open>assigner\<close>; no optimizer
  is constructed.
\<close>

theorem no_assigner_crash:
  "snd (main module_globals base_env (base_args\<lparr>layer_decay := 1\<rparr>)) = Inl (UnboundLocalError ''assigner'') \<and>
   ModelToDevice \<in> set (fst (main module_globals base_env (base_args\<lparr>layer_decay := 1\<rparr>))) \<and>
   (\<forall>x. CreateOptimizer x \<notin> set (fst (main module_globals base_env (base_args\<lparr>layer_decay := 1\<rparr>))))"
  by (simp add: main_def prepare_eval run_eval sample_data)

text \<open>
  C4 at \<open>args.disable_eval = True\<close> (with \<open>mixup_fn\<close> bound, so that the loop is reached):
  the loader of line 68 is never \<open>None\<close>, so the first epoch evaluates; line 227 then
  raises \<open>TypeError\<close> on \<open>len(None)\<close>, and no log record is written.
\<close>

theorem disabled_evaluation_still_evaluates:
  "disable_eval (base_args\<lparr>disable_eval := True\<rparr>) \<and>
   Evaluate Primary \<in> set (fst (main patched_globals base_env (base_args\<lparr>disable_eval := True\<rparr>))) \<and>
   snd (main patched_globals base_env (base_args\<lparr>disable_eval := True\<rparr>)) = Inl (TypeError ''len'') \<and>
   (\<forall>r. WriteRecord r \<notin> set (fst (main patched_globals base_env (base_args\<lparr>disable_eval := True\<rparr>))))"
  by (simp add: main_def prepare_eval stage_eval run_eval sample_data upto.simps)

subsection \<open>The configuration snapshot\<close>











subsection \<open>Loading the pretrained weights\<close>

lemma search_none:
  "first_match ks ck = None \<Longrightarrow> search_model_key lg ks ck = ret ONone"
  by (induction ks) (auto simp: first_match_def split: option.splits if_splits)

lemma search_some:
  "first_match ks ck = Some v \<Longrightarrow> snd (search_model_key (Some ()) ks ck) = Inr v"
  by (induction ks)
     (auto simp: first_match_def info_def run_simps snd_thn_Inr snd_bnd_Inr split: option.splits if_splits)

lemma map_of_dict_del: "map_of (dict_del k d) k' = (if k' = k then None else map_of d k')"
  by (induction d) (auto simp: dict_del_def)

lemma drop_mismatched_result:
  assumes "\<forall>v. map_of cm k = Some v \<longrightarrow> (\<exists>x t. v = OTensor x \<and> map_of st k = Some t)"
  shows "\<exists>cm'. drop_mismatched st k cm = ret cm' \<and>
           (\<forall>k'. map_of cm' k' = (if k' = k \<and> head_mismatch st cm k then None else map_of cm k'))"
proof (cases "map_of cm k")
  case None
  then show ?thesis by (auto simp: drop_mismatched_def head_mismatch_def)
next
  case (Some v)
  with assms obtain x t where v: "v = OTensor x" and t: "map_of st k = Some t" by blast
  with Some show ?thesis
    by (auto simp: drop_mismatched_def head_mismatch_def shape_of_def getitem_Some run_simps
          map_of_dict_del)
qed

lemma load_state_dict_result:
  "snd (load_state_dict st table prefix) = Inr st' \<Longrightarrow>
   map fst st' = map fst st \<and>
   (\<forall>k. map_of st' k =
      (case map_of st k of
         None \<Rightarrow> None
       | Some t \<Rightarrow> Some (case map_of table (prefix @ k) of Some (OTensor x) \<Rightarrow> x | _ \<Rightarrow> t)))"
proof (induction st table prefix arbitrary: st' rule: load_state_dict.induct)
  case (1 table prefix)
  then show ?case by (simp add: run_parts)
next
  case (2 kt rest table prefix)
  from "2.prems" obtain t rest' where
    t: "snd (case map_of table (prefix @ fst kt) of
            None \<Rightarrow> ret (snd kt)
          | Some (OTensor t) \<Rightarrow>
              if shape t = shape (snd kt) then ret t
              else raise_err (IncompatibleCheckpoint (fst kt))
          | Some _ \<Rightarrow> raise_err (IncompatibleCheckpoint (fst kt))) = Inr t"
    and r: "snd (load_state_dict rest table prefix) = Inr rest'"
    and s: "st' = (fst kt, t) # rest'"
    by (auto simp: snd_bnd_Inr run_parts)
  from t have tv: "t = (case map_of table (prefix @ fst kt) of Some (OTensor x) \<Rightarrow> x | _ \<Rightarrow> snd kt)"
    by (auto simp: run_parts split: option.splits obj.splits if_splits)
  from "2.IH" r have ih: "map fst rest' = map fst rest \<and>
   (\<forall>k. map_of rest' k =
      (case map_of rest k of
         None \<Rightarrow> None
       | Some t \<Rightarrow> Some (case map_of table (prefix @ k) of Some (OTensor x) \<Rightarrow> x | _ \<Rightarrow> t)))"
    by blast
  show ?case
    using ih s tv by (cases kt) (auto split: option.splits obj.splits)
qed

text \<open>
  C8. Let a logger exist unless no preferred key matches, let the nested table, when one
  is found, be a dict, and let the head entries of the table be tensors for which the
  model has a tensor of the same name. Then lines 94-105 return a table: it is the value
  under the first preferred key that the artifact holds, or the whole artifact when it
  holds none, without the entries \<open>head.weight\<close> and \<open>head.bias\<close> whose shape differs from
  the model's, and with every other entry as it was. When \<open>utils.load_state_dict\<close> then
  returns, the model has the same keys, each with the table's tensor where the table has
  one under the prefixed name and with its own value otherwise; with an empty prefix a
  head that was dropped keeps its initial value.
\<close>

theorem foreign_weight_loading:
  assumes "lg = Some () \<or> first_match (split_on CHR ''|'' keys) ck = None"
    and "\<forall>v. first_match (split_on CHR ''|'' keys) ck = Some v \<longrightarrow> (\<exists>d. v = ODict d)"
    and "table0 = (case first_match (split_on CHR ''|'' keys) ck of Some (ODict d) \<Rightarrow> d | _ \<Rightarrow> ck)"
    and "\<forall>k\<in>{''head.weight'', ''head.bias''}. \<forall>v. map_of table0 k = Some v \<longrightarrow>
           (\<exists>x t. v = OTensor x \<and> map_of st k = Some t)"
  shows "\<exists>table. snd (select_weights lg keys (ODict ck) st) = Inr table \<and>
     (\<forall>k. map_of table k =
        (if k \<in> {''head.weight'', ''head.bias''} \<and> head_mismatch st table0 k then None
         else map_of table0 k)) \<and>
     (\<forall>st'. snd (load_state_dict st table prefix) = Inr st' \<longrightarrow>
        map fst st' = map fst st \<and>
        (\<forall>k. map_of st' k =
           (case map_of st k of
              None \<Rightarrow> None
            | Some t \<Rightarrow> Some (case map_of table (prefix @ k) of Some (OTensor x) \<Rightarrow> x | _ \<Rightarrow> t))) \<and>
        (prefix = [] \<longrightarrow>
           (\<forall>k\<in>{''head.weight'', ''head.bias''}. head_mismatch st table0 k \<longrightarrow>
              map_of st' k = map_of st k)))"
proof -
  let ?ks = "split_on CHR ''|'' keys"
  have found: "\<exists>found. snd (search_model_key lg ?ks ck) = Inr found \<and>
      (if found = ONone then ODict ck else found) = ODict table0"
  proof (cases "first_match ?ks ck")
    case None
    then show ?thesis using assms(3) by (simp add: search_none run_parts)
  next
    case (Some v)
    with assms(2) obtain d where d: "v = ODict d" by blast
    from Some assms(1) have lg: "lg = Some ()" by simp
    from search_some[OF Some] lg d Some assms(3) show ?thesis by simp
  qed
  then obtain found where f: "snd (search_model_key lg ?ks ck) = Inr found"
    and t0: "(if found = ONone then ODict ck else found) = ODict table0" by blast
  from assms(4) have hw: "\<forall>v. map_of table0 ''head.weight'' = Some v \<longrightarrow>
      (\<exists>x t. v = OTensor x \<and> map_of st ''head.weight'' = Some t)" by simp
  from drop_mismatched_result[OF hw] obtain cm1 where
    c1: "drop_mismatched st ''head.weight'' table0 = ret cm1" and
    m1: "\<forall>k'. map_of cm1 k' =
           (if k' = ''head.weight'' \<and> head_mismatch st table0 ''head.weight'' then None else map_of table0 k')"
    by blast
  from assms(4) m1 have hb: "\<forall>v. map_of cm1 ''head.bias'' = Some v \<longrightarrow>
      (\<exists>x t. v = OTensor x \<and> map_of st ''head.bias'' = Some t)" by simp
  from drop_mismatched_result[OF hb] obtain cm2 where
    c2: "drop_mismatched st ''head.bias'' cm1 = ret cm2" and
    m2: "\<forall>k'. map_of cm2 k' =
           (if k' = ''head.bias'' \<and> head_mismatch st cm1 ''head.bias'' then None else map_of cm1 k')"
    by blast
  have hm: "head_mismatch st cm1 ''head.bias'' = head_mismatch st table0 ''head.bias''"
    using m1 by (simp add: head_mismatch_def)
  have sel: "snd (select_weights lg keys (ODict ck) st) = Inr cm2"
    using f t0 c1 c2
    by (simp add: select_weights_def as_dict_def snd_bnd_Inr run_simps)
  have look: "\<forall>k. map_of cm2 k =
        (if k \<in> {''head.weight'', ''head.bias''} \<and> head_mismatch st table0 k then None
         else map_of table0 k)"
    using m1 m2 hm by auto
  have load: "\<forall>st'. snd (load_state_dict st cm2 prefix) = Inr st' \<longrightarrow>
        map fst st' = map fst st \<and>
        (\<forall>k. map_of st' k =
           (case map_of st k of
              None \<Rightarrow> None
            | Some t \<Rightarrow> Some (case map_of cm2 (prefix @ k) of Some (OTensor x) \<Rightarrow> x | _ \<Rightarrow> t))) \<and>
        (prefix = [] \<longrightarrow>
           (\<forall>k\<in>{''head.weight'', ''head.bias''}. head_mismatch st table0 k \<longrightarrow>
              map_of st' k = map_of st k))"
  proof (intro allI impI)
    fix st' assume a: "snd (load_state_dict st cm2 prefix) = Inr st'"
    note r = load_state_dict_result[OF a]
    have "prefix = [] \<longrightarrow>
           (\<forall>k\<in>{''head.weight'', ''head.bias''}. head_mismatch st table0 k \<longrightarrow>
              map_of st' k = map_of st k)"
      using r look by (auto simp: head_mismatch_def split: option.splits obj.splits)
    with r show "map fst st' = map fst st \<and>
        (\<forall>k. map_of st' k =
           (case map_of st k of
              None \<Rightarrow> None
            | Some t \<Rightarrow> Some (case map_of cm2 (prefix @ k) of Some (OTensor x) \<Rightarrow> x | _ \<Rightarrow> t))) \<and>
        (prefix = [] \<longrightarrow>
           (\<forall>k\<in>{''head.weight'', ''head.bias''}. head_mismatch st table0 k \<longrightarrow>
              map_of st' k = map_of st k))"
      by blast
  qed
  from sel look load show ?thesis by blast
qed


text \<open>
  The nested sample table with a three-class head, loaded into the two-class sample
  model: both head entries are dropped, the stem is transferred, the head stays.
\<close>

theorem foreign_weight_loading_witness:
  "first_match (split_on CHR ''|'' ''model|module'') sample_artifact = Some (ODict sample_table) \<and>
   head_mismatch sample_state sample_table ''head.weight'' \<and>
   head_mismatch sample_state sample_table ''head.bias'' \<and>
   snd (select_weights (Some ()) ''model|module'' (ODict sample_artifact) sample_state) =
     Inr [(''stem.weight'', OTensor \<lparr>shape = [2], entries = [5, 7]\<rparr>),
          (''fc_norm.weight'', OTensor \<lparr>shape = [2], entries = [9, 9]\<rparr>)] \<and>
   snd (load_state_dict sample_state
          [(''stem.weight'', OTensor \<lparr>shape = [2], entries = [5, 7]\<rparr>),
           (''fc_norm.weight'', OTensor \<lparr>shape = [2], entries = [9, 9]\<rparr>)] []) = Inr loaded_state \<and>
   map_of loaded_state ''head.weight'' = map_of sample_state ''head.weight'' \<and>
   map_of loaded_state ''head.bias'' = map_of sample_state ''head.bias'' \<and>
   map_of loaded_state ''stem.weight'' = Some \<lparr>shape = [2], entries = [5, 7]\<rparr>"
proof -
  let ?ks = "split_on CHR ''|'' ''model|module''"
  let ?t = "[(''stem.weight'', OTensor \<lparr>shape = [2], entries = [5, 7]\<rparr>),
          (''fc_norm.weight'', OTensor \<lparr>shape = [2], entries = [9, 9]\<rparr>)]"
  have fm: "first_match ?ks sample_artifact = Some (ODict sample_table)"
    by (simp add: first_match_def sample_artifact_def)
  have a1: "Some () = Some () \<or> first_match ?ks sample_artifact = None" by simp
  have a2: "\<forall>v. first_match ?ks sample_artifact = Some v \<longrightarrow> (\<exists>d. v = ODict d)"
    using fm by auto
  have a3: "sample_table = (case first_match ?ks sample_artifact of Some (ODict d) \<Rightarrow> d | _ \<Rightarrow> sample_artifact)"
    using fm by auto
  have a4: "\<forall>k\<in>{''head.weight'', ''head.bias''}. \<forall>v. map_of sample_table k = Some v \<longrightarrow>
           (\<exists>x t. v = OTensor x \<and> map_of sample_state k = Some t)"
    by (simp add: sample_table_def sample_state_def)
  have hm: "head_mismatch sample_state sample_table ''head.weight''"
    "head_mismatch sample_state sample_table ''head.bias''"
    by (simp_all add: head_mismatch_def sample_table_def sample_state_def)
  have sel: "snd (select_weights (Some ()) ''model|module'' (ODict sample_artifact) sample_state) = Inr ?t"
    by (simp add: select_weights_def as_dict_def drop_mismatched_def shape_of_def dict_del_def
          run_eval sample_artifact_def sample_table_def sample_state_def)
  have ld: "snd (load_state_dict sample_state ?t []) = Inr loaded_state"
    by (simp add: run_eval sample_state_def loaded_state_def)
  from foreign_weight_loading[OF a1 a2 a3 a4, of "[]"] sel
  have "\<forall>st'. snd (load_state_dict sample_state ?t []) = Inr st' \<longrightarrow>
          (\<forall>k\<in>{''head.weight'', ''head.bias''}. head_mismatch sample_state sample_table k \<longrightarrow>
              map_of st' k = map_of sample_state k)"
    by auto
  with ld hm have "map_of loaded_state ''head.weight'' = map_of sample_state ''head.weight''"
    "map_of loaded_state ''head.bias'' = map_of sample_state ''head.bias''"
    by auto
  moreover have "map_of loaded_state ''stem.weight'' = Some \<lparr>shape = [2], entries = [5, 7]\<rparr>"
    by (simp add: loaded_state_def)
  ultimately show ?thesis using fm hm sel ld by simp
qed

subsection \<open>The schedule generator\<close>

lemma length_cosine_scheduler:
  "length (cosine_scheduler b e te spe we ws) = te * spe"
  by (simp add: cosine_scheduler_def Let_def)

lemma nth_cosine_scheduler:
  assumes "i < te * spe"
  shows "cosine_scheduler b e te spe we ws ! i =
     (if i < warmup_length spe we ws then warmup_value b (warmup_length spe we ws) i
      else decay_value b e (te * spe - warmup_length spe we ws) (i - warmup_length spe we ws))"
  using assms by (auto simp: cosine_scheduler_def Let_def nth_append)

lemma warmup_value_mono:
  assumes "0 \<le> b" and "i \<le> j"
  shows "warmup_value b w i \<le> warmup_value b w j"
  using assms by (auto simp: warmup_value_def intro!: divide_right_mono mult_left_mono)

lemma decay_value_antimono:
  assumes "e \<le> b" and "i \<le> j" and "j < n"
  shows "decay_value b e n j \<le> decay_value b e n i"
proof (cases "n \<le> 1")
  case True
  then show ?thesis by (simp add: decay_value_def)
next
  case False
  then have n: "0 < real (n - 1)" by simp
  have le: "pi * real i / real (n - 1) \<le> pi * real j / real (n - 1)"
    using assms(2) n by (intro divide_right_mono mult_left_mono) simp_all
  have "real j \<le> real (n - 1)" using assms(3) by simp
  then have "pi * real j \<le> pi * real (n - 1)" by (intro mult_left_mono) simp_all
  then have up: "pi * real j / real (n - 1) \<le> pi" using n by (simp add: pos_divide_le_eq)
  have lo: "0 \<le> pi * real i / real (n - 1)" using n by simp
  from cos_monotone_0_pi_le[OF lo le up]
  have "cos (pi * real j / real (n - 1)) \<le> cos (pi * real i / real (n - 1))" .
  then have "(b - e) / 2 * (1 + cos (pi * real j / real (n - 1))) \<le>
             (b - e) / 2 * (1 + cos (pi * real i / real (n - 1)))"
    using assms(1) by (intro mult_left_mono) simp_all
  with False show ?thesis by (simp add: decay_value_def)
qed

lemma decay_value_last: "0 < n \<Longrightarrow> decay_value b e n (n - 1) = e"
  by (simp add: decay_value_def)

text \<open>
  C9, on the schedule generator as the specification describes it, over the reals. The
  schedule has \<open>total_epochs \<times> steps_per_epoch\<close> values. For a base value that is not
  negative it does not decrease during warmup; for \<open>end_value < base_value\<close> it does not
  increase after the warmup, and so nowhere when there is no warmup; it starts at 0 when
  there is a warmup phase; and it ends at \<open>end_value\<close> when the warmup is shorter than the
  schedule.
\<close>

theorem schedule_generator:
  "length (cosine_scheduler b e te spe we ws) = te * spe \<and>
   (0 \<le> b \<longrightarrow>
      (\<forall>i j. i \<le> j \<and> j < warmup_length spe we ws \<and> j < te * spe \<longrightarrow>
         cosine_scheduler b e te spe we ws ! i \<le> cosine_scheduler b e te spe we ws ! j)) \<and>
   (e < b \<longrightarrow>
      (\<forall>i j. warmup_length spe we ws \<le> i \<and> i \<le> j \<and> j < te * spe \<longrightarrow>
         cosine_scheduler b e te spe we ws ! j \<le> cosine_scheduler b e te spe we ws ! i)) \<and>
   (0 < warmup_length spe we ws \<and> 0 < te * spe \<longrightarrow> cosine_scheduler b e te spe we ws ! 0 = 0) \<and>
   (warmup_length spe we ws < te * spe \<longrightarrow> cosine_scheduler b e te spe we ws ! (te * spe - 1) = e)"
proof -
  let ?w = "warmup_length spe we ws"
  let ?s = "cosine_scheduler b e te spe we ws"
  have warm: "0 \<le> b \<longrightarrow> (\<forall>i j. i \<le> j \<and> j < ?w \<and> j < te * spe \<longrightarrow> ?s ! i \<le> ?s ! j)"
    by (auto simp: nth_cosine_scheduler warmup_value_mono)
  have dec: "e < b \<longrightarrow> (\<forall>i j. ?w \<le> i \<and> i \<le> j \<and> j < te * spe \<longrightarrow> ?s ! j \<le> ?s ! i)"
  proof (intro impI allI)
    fix i j assume eb: "e < b" and h: "?w \<le> i \<and> i \<le> j \<and> j < te * spe"
    then have "decay_value b e (te * spe - ?w) (j - ?w) \<le> decay_value b e (te * spe - ?w) (i - ?w)"
      by (intro decay_value_antimono) auto
    with h show "?s ! j \<le> ?s ! i" by (simp add: nth_cosine_scheduler)
  qed
  have start: "0 < ?w \<and> 0 < te * spe \<longrightarrow> ?s ! 0 = 0"
    by (simp add: nth_cosine_scheduler warmup_value_def)
  have fin: "?w < te * spe \<longrightarrow> ?s ! (te * spe - 1) = e"
  proof
    assume h: "?w < te * spe"
    then have i: "te * spe - 1 < te * spe" and n: "\<not> te * spe - 1 < ?w"
      and p: "0 < te * spe - ?w" and d: "te * spe - 1 - ?w = te * spe - ?w - 1"
      by simp_all
    have "?s ! (te * spe - 1) = decay_value b e (te * spe - ?w) (te * spe - ?w - 1)"
      unfolding nth_cosine_scheduler[OF i] using n d by simp
    also have "\<dots> = e" by (rule decay_value_last[OF p])
    finally show "?s ! (te * spe - 1) = e" .
  qed
  from length_cosine_scheduler warm dec start fin show ?thesis by blast
qed

text \<open>
  The scenario of the specification: ten epochs of 100 steps, one warmup epoch, from 0.1
  down to 0.
\<close>

theorem schedule_generator_witness:
  "(0::real) \<le> 1 / 10 \<and> (0::real) < 1 / 10 \<and> warmup_length 100 1 0 = 100 \<and>
   length (cosine_scheduler (1 / 10) 0 10 100 1 0) = 1000 \<and>
   cosine_scheduler (1 / 10) 0 10 100 1 0 ! 0 = 0 \<and>
   cosine_scheduler (1 / 10) 0 10 100 1 0 ! 99 = 1 / 10 \<and>
   cosine_scheduler (1 / 10) 0 10 100 1 0 ! 999 = 0 \<and>
   cosine_scheduler (1 / 10) 0 10 100 1 0 ! 98 \<le> cosine_scheduler (1 / 10) 0 10 100 1 0 ! 99 \<and>
   cosine_scheduler (1 / 10) 0 10 100 1 0 ! 999 \<le> cosine_scheduler (1 / 10) 0 10 100 1 0 ! 100"
proof -
  let ?s = "cosine_scheduler (1 / 10) 0 10 100 1 0"
  have w: "warmup_length 100 1 0 = 100" by (simp add: warmup_length_def)
  have v: "?s ! 99 = 1 / 10"
    by (simp add: nth_cosine_scheduler warmup_length_def warmup_value_def)
  note t = schedule_generator[of "1 / 10" 0 10 100 1 0, unfolded w]
  from t have basic: "length ?s = 1000" "?s ! 0 = 0" "?s ! 999 = 0"
    by simp_all
  from t have up: "\<forall>i j. i \<le> j \<and> j < 100 \<and> j < 10 * 100 \<longrightarrow> ?s ! i \<le> ?s ! j"
    by simp
  from t have down: "\<forall>i j. 100 \<le> i \<and> i \<le> j \<and> j < 10 * 100 \<longrightarrow> ?s ! j \<le> ?s ! i"
    by simp
  have m1: "?s ! 98 \<le> ?s ! 99" using up[rule_format, of 98 99] by simp
  have m2: "?s ! 999 \<le> ?s ! 100" using down[rule_format, of 100 999] by simp
  from w v basic m1 m2 show ?thesis by simp
qed

end
